theory Spec2Isabelle
  imports Main "HOL-Library.AList" "HOL-Library.Multiset"
begin

section \<open>JavaScript values\<close>

text \<open>
  The server works on untyped JSON request bodies, so the records it stores are
  JavaScript objects, not typed structs. A value is one of the JSON shapes plus
  \<open>undefined\<close> (what reading an absent property gives). Numbers are the
  integer-valued ones (ratings, millisecond timestamps, HTTP status codes); fractional
  numbers are outside the model. An object is its list of properties in insertion order.
\<close>

datatype jsval =
    JUndefined
  | JNull
  | JBool bool
  | JNum int
  | JStr string
  | JArr "jsval list"
  | JObj "(string \<times> jsval) list"

type_synonym obj = "(string \<times> jsval) list"

text \<open>Property read \<open>o.k\<close>: an absent property reads as \<open>undefined\<close>.\<close>

definition getProp :: "obj \<Rightarrow> string \<Rightarrow> jsval" where
  "getProp ob k = (case map_of ob k of None \<Rightarrow> JUndefined | Some v \<Rightarrow> v)"

text \<open>What \<open>if (v)\<close> and \<open>!v\<close> test.\<close>

fun truthy :: "jsval \<Rightarrow> bool" where
  "truthy JUndefined = False"
| "truthy JNull = False"
| "truthy (JBool b) = b"
| "truthy (JNum n) = (n \<noteq> 0)"
| "truthy (JStr s) = (s \<noteq> [])"
| "truthy (JArr xs) = True"
| "truthy (JObj kvs) = True"

text \<open>
  Object spread \<open>{ ...a, ...b }\<close>: the properties of \<open>a\<close>, then each property of
  \<open>b\<close> in turn, overwriting the value of a key that is already there (in place) and
  appending a new key.
\<close>

definition spread :: "obj \<Rightarrow> obj \<Rightarrow> obj" where
  "spread a b = fold (\<lambda>kv acc. AList.update (fst kv) (snd kv) acc) b a"

text \<open>\<open>Array.prototype.findIndex\<close>: the first index whose element passes, or \<open>-1\<close>.\<close>

fun findIndex :: "('a \<Rightarrow> bool) \<Rightarrow> 'a list \<Rightarrow> int" where
  "findIndex P [] = - 1"
| "findIndex P (x # xs) =
     (if P x then 0
      else (let r = findIndex P xs in if r = - 1 then - 1 else r + 1))"

text \<open>\<open>String.prototype.includes\<close>.\<close>

fun startsWith :: "string \<Rightarrow> string \<Rightarrow> bool" where
  "startsWith s [] = True"
| "startsWith [] (c # cs) = False"
| "startsWith (x # xs) (c # cs) = (x = c \<and> startsWith xs cs)"

fun str_includes :: "string \<Rightarrow> string \<Rightarrow> bool" where
  "str_includes [] n = (n = [])"
| "str_includes (x # xs) n = (startsWith (x # xs) n \<or> str_includes xs n)"

text \<open>
  String conversion, as a template literal applies it to an interpolated value. \<open>None\<close>
  is the \<open>TypeError\<close> that JavaScript throws for an object with an own property
  \<open>toString\<close>: in a value that came from JSON such a property is never a function, and
  the inherited \<open>valueOf\<close> gives no primitive. An object without it prints through
  \<open>Object.prototype.toString\<close>. An array prints its elements joined by commas, with
  \<open>null\<close> and \<open>undefined\<close> elements printed as nothing, and throws when an element
  throws. How a number prints is the language's \<open>Number.prototype.toString\<close>, taken as
  the parameter \<open>numberToString\<close>.
\<close>

fun toString :: "(int \<Rightarrow> string) \<Rightarrow> jsval \<Rightarrow> string option"
  and joinElems :: "(int \<Rightarrow> string) \<Rightarrow> jsval list \<Rightarrow> string option" where
  "toString numberToString JUndefined = Some ''undefined''"
| "toString numberToString JNull = Some ''null''"
| "toString numberToString (JBool b) = Some (if b then ''true'' else ''false'')"
| "toString numberToString (JNum n) = Some (numberToString n)"
| "toString numberToString (JStr s) = Some s"
| "toString numberToString (JArr xs) = joinElems numberToString xs"
| "toString numberToString (JObj kvs) =
     (if map_of kvs ''toString'' = None then Some ''[object Object]'' else None)"
| "joinElems numberToString [] = Some []"
| "joinElems numberToString [x] =
     (if x = JUndefined \<or> x = JNull then Some [] else toString numberToString x)"
| "joinElems numberToString (x # y # ys) =
     (case (if x = JUndefined \<or> x = JNull then Some [] else toString numberToString x) of
        None \<Rightarrow> None
      | Some sx \<Rightarrow>
          (case joinElems numberToString (y # ys) of
             None \<Rightarrow> None
           | Some rest \<Rightarrow> Some (sx @ CHR '','' # rest)))"


section \<open>The AI provider and the process state\<close>

text \<open>
  An error thrown by the provider's SDK: \<open>error.status\<close> when it is a number, and
  \<open>error.message\<close> when it is a string.
\<close>

record api_error =
  status :: "int option"
  message :: "string option"

text \<open>
  One call of \<open>genAI.models.generateContent\<close> either returns a response object, of
  which the server reads only \<open>response.text\<close> (possibly undefined), or throws.
\<close>

datatype provider_result =
    Returns "string option"
  | Throws api_error

text \<open>
  The provider is outside the program: it is given as the outcome of its \<open>n\<close>-th
  invocation (counted from 0 over the life of the process) on a prompt. The model name
  and the response schema are constants of every call and are left out.
\<close>

type_synonym provider = "nat \<Rightarrow> string \<Rightarrow> provider_result"

text \<open>What a Mongoose schema declares for a path.\<close>

datatype schema_type =
    SString
  | SNumber
  | SBoolean
  | SArray schema_type
  | SNested "(string \<times> schema_type) list"
  | SDefault schema_type jsval

text \<open>
  The module-level variables of the server, and what it has done to the outside so far:
  \<^item> \<open>genAI\<close> is \<open>None\<close> when \<open>API_KEY\<close> is not set (the source's \<open>null\<close>);
  \<^item> \<open>useMongo\<close> and \<open>feedbackMemory\<close> are the source's variables;
  \<^item> \<open>mongooseModel\<close> is what the database library makes of a schema: for a document
    passed to the model's constructor and saved, either the validation error that
    \<open>save()\<close> rejects with, or the document as the model holds it (values cast to the
    schema's types, the library's own fields added);
  \<^item> \<open>collection\<close> is the content of the \<open>Feedback\<close> collection of the database,
    and \<open>dbError\<close>, when set, is the error with which every database operation rejects;
  \<^item> \<open>calls\<close> counts the provider invocations, \<open>slept\<close> lists the delays (in ms)
    waited by \<open>setTimeout\<close>, oldest first.
\<close>

record server =
  genAI :: "provider option"
  mongooseModel :: "(string \<times> schema_type) list \<Rightarrow> obj \<Rightarrow> string + obj"
  useMongo :: bool
  feedbackMemory :: "obj list"
  collection :: "obj list"
  dbError :: "string option"
  calls :: nat
  slept :: "nat list"


section \<open>Retry executor\<close>

text \<open>
  \<open>error.status === 429 || error.status === 503 || error.message?.includes('429')\<close>
\<close>

definition isTransient :: "api_error \<Rightarrow> bool" where
  "isTransient e =
     (status e = Some 429 \<or> status e = Some 503 \<or>
      (case message e of None \<Rightarrow> False | Some m \<Rightarrow> str_includes m ''429''))"

text \<open>What \<open>generateContentWithRetry\<close> can return when it does not throw.\<close>

datatype retval =
    RNull
  | RUndefined
  | RResponse "string option"

text \<open>
  The \<open>for\<close> loop of \<open>generateContentWithRetry\<close>, from iteration \<open>i\<close> on. A
  successful call returns its response. A failed call is followed by a delay of
  \<open>initialDelay * 2^i\<close> when it is transient and not the last attempt; otherwise the
  error is thrown only when \<open>i = retries - 1\<close>, and the loop goes on to the next
  iteration when it is not. Leaving the loop returns \<open>undefined\<close>.
\<close>

function generateContentLoop ::
  "provider \<Rightarrow> string \<Rightarrow> nat \<Rightarrow> nat \<Rightarrow> nat \<Rightarrow> server \<Rightarrow> (api_error + retval) \<times> server"
where
  "generateContentLoop p prompt retries initialDelay i st =
     (if i < retries then
        (let st1 = st\<lparr>calls := calls st + 1\<rparr> in
         case p (calls st) prompt of
           Returns r \<Rightarrow> (Inr (RResponse r), st1)
         | Throws e \<Rightarrow>
             if isTransient e \<and> int i < int retries - 1 then
               generateContentLoop p prompt retries initialDelay (i + 1)
                 (st1\<lparr>slept := slept st1 @ [initialDelay * 2 ^ i]\<rparr>)
             else if int i = int retries - 1 then (Inl e, st1)
             else generateContentLoop p prompt retries initialDelay (i + 1) st1)
      else (Inr RUndefined, st))"
  by pat_completeness auto
termination
  by (relation "measure (\<lambda>(p, prompt, retries, initialDelay, i, st). retries - i)") auto

declare generateContentLoop.simps [simp del]

text \<open>\<open>generateContentWithRetry(prompt, retries = 3, initialDelay = 1000)\<close>\<close>

definition generateContentWithRetry ::
  "string \<Rightarrow> nat \<Rightarrow> nat \<Rightarrow> server \<Rightarrow> (api_error + retval) \<times> server"
where
  "generateContentWithRetry prompt retries initialDelay st =
     (case genAI st of
        None \<Rightarrow> (Inr RNull, st)
      | Some p \<Rightarrow> generateContentLoop p prompt retries initialDelay 0 st)"


section \<open>Submission store\<close>

text \<open>
  The comparator of the listing, \<open>(a, b) => b.timestamp - a.timestamp\<close>. The
  server writes \<open>timestamp\<close> as a number. A timestamp of another kind (only a PATCH
  body can put one there) makes the difference \<open>NaN\<close> here, which \<open>sort\<close> treats
  as "equal"; the coercions JavaScript would try first on \<open>null\<close>, booleans and
  numeric strings are outside the model.
\<close>

definition timestampOf :: "obj \<Rightarrow> int option" where
  "timestampOf r = (case getProp r ''timestamp'' of JNum n \<Rightarrow> Some n | _ \<Rightarrow> None)"

definition compareDesc :: "obj \<Rightarrow> obj \<Rightarrow> int option" where
  "compareDesc a b =
     (case (timestampOf a, timestampOf b) of
        (Some ta, Some tb) \<Rightarrow> Some (tb - ta)
      | _ \<Rightarrow> None)"

text \<open>
  \<open>Array.prototype.sort(compareFn)\<close> is a stable sort: \<open>a\<close> is placed after
  \<open>b\<close> exactly when \<open>compareFn(a, b) > 0\<close>, and elements that compare equal keep
  their order. It is written here as a stable insertion sort.
\<close>

definition placedAfter :: "obj \<Rightarrow> obj \<Rightarrow> bool" where
  "placedAfter a b = (case compareDesc a b of Some d \<Rightarrow> d > 0 | None \<Rightarrow> False)"

fun insertSorted :: "obj \<Rightarrow> obj list \<Rightarrow> obj list" where
  "insertSorted x [] = [x]"
| "insertSorted x (y # ys) =
     (if placedAfter x y then y # insertSorted x ys else x # y # ys)"

definition sortDesc :: "obj list \<Rightarrow> obj list" where
  "sortDesc xs = foldr insertSorted xs []"

text \<open>
  The schema the source declares, \<open>feedbackSchema\<close>, and the model the library
  compiles from it, \<open>const Feedback = mongoose.model('Feedback', feedbackSchema)\<close>.
\<close>

definition feedbackSchema :: "(string \<times> schema_type) list" where
  "feedbackSchema =
     [(''id'', SString),
      (''rating'', SNumber),
      (''reviewText'', SString),
      (''timestamp'', SNumber),
      (''aiAnalysis'',
         SNested [(''userResponse'', SString),
                  (''summary'', SString),
                  (''recommendedActions'', SArray SString),
                  (''sentiment'', SString)]),
      (''helpfulResponse'', SDefault SBoolean JNull)]"

definition Feedback :: "server \<Rightarrow> obj \<Rightarrow> string + obj" where
  "Feedback st = mongooseModel st feedbackSchema"

text \<open>
  The document database behind \<open>mongoose\<close> is an external collaborator. The collection
  is the list of its documents in insertion order, and every database operation rejects
  with \<open>dbError\<close> when that is set.
\<close>

text \<open>
  \<open>const newFeedback = new Feedback(newSubmission); await newFeedback.save()\<close>: the
  model applies the schema to the submission; \<open>save()\<close> rejects with the validation
  error if there is one and with the database's error if the write fails, and otherwise
  the document the model holds is in the collection.
\<close>

definition mongoSave :: "obj \<Rightarrow> server \<Rightarrow> string + (obj \<times> server)" where
  "mongoSave submission st =
     (case Feedback st submission of
        Inl m \<Rightarrow> Inl m
      | Inr newFeedback \<Rightarrow>
          (case dbError st of
             Some m \<Rightarrow> Inl m
           | None \<Rightarrow> Inr (newFeedback, st\<lparr>collection := collection st @ [newFeedback]\<rparr>)))"

text \<open>
  Modelled from the spec: \<open>Feedback.find().sort({ timestamp: -1 })\<close> of the database
  library, missing from the sources; \<open>listAll\<close> asks the database for a
  descending-timestamp sort.
\<close>

definition mongoFindSorted :: "server \<Rightarrow> string + obj list" where
  "mongoFindSorted st =
     (case dbError st of
        Some m \<Rightarrow> Inl m
      | None \<Rightarrow> Inr (sortDesc (collection st)))"

text \<open>
  Modelled from the spec: \<open>Feedback.findOneAndUpdate({ id }, { $set: body }, { new: true })\<close>
  of the database library, missing from the sources; \<open>updatePartial\<close> merges the
  fields into the record with that id and gives the updated record, or a null result when
  the id is unknown.
\<close>

definition mongoFindOneAndUpdate :: "string \<Rightarrow> obj \<Rightarrow> server \<Rightarrow> string + (jsval \<times> server)" where
  "mongoFindOneAndUpdate ident setFields st =
     (case dbError st of
        Some m \<Rightarrow> Inl m
      | None \<Rightarrow>
          (let index = findIndex (\<lambda>f. getProp f ''id'' = JStr ident) (collection st) in
           if index \<noteq> - 1 then
             (let doc = spread (collection st ! nat index) setFields in
              Inr (JObj doc, st\<lparr>collection := (collection st)[nat index := doc]\<rparr>))
           else Inr (JNull, st)))"


section \<open>HTTP handlers\<close>

text \<open>\<open>res.status(c).json(v)\<close>; \<open>res.json(v)\<close> alone answers with status 200.\<close>

record http_response =
  statusCode :: nat
  json :: jsval

definition errorBody :: "string \<Rightarrow> jsval" where
  "errorBody m = JObj [(''message'', JStr m)]"

subsection \<open>GET /api/feedback\<close>

text \<open>In memory, \<open>sort\<close> sorts \<open>feedbackMemory\<close> in place and returns it.\<close>

definition getFeedback :: "server \<Rightarrow> http_response \<times> server" where
  "getFeedback st =
     (if useMongo st then
        (case mongoFindSorted st of
           Inl m \<Rightarrow> (\<lparr>statusCode = 500, json = errorBody m\<rparr>, st)
         | Inr feedback \<Rightarrow> (\<lparr>statusCode = 200, json = JArr (map JObj feedback)\<rparr>, st))
      else
        (let sorted = sortDesc (feedbackMemory st) in
         (\<lparr>statusCode = 200, json = JArr (map JObj sorted)\<rparr>, st\<lparr>feedbackMemory := sorted\<rparr>)))"

subsection \<open>POST /api/feedback\<close>

definition fallbackAnalysis :: jsval where
  "fallbackAnalysis = JObj
     [(''userResponse'',
         JStr ''Thank you for your feedback! We appreciate you taking the time to share your thoughts.''),
      (''summary'', JStr ''AI analysis unavailable at this moment.''),
      (''recommendedActions'',
         JArr [JStr ''Check API Quota/Connection'', JStr ''Review logs manually'']),
      (''sentiment'', JStr ''Neutral'')]"

text \<open>
  The template literal of the prompt, line by line (each line is indented by ten blanks).
  It converts \<open>rating\<close> first, then \<open>reviewText\<close>, and throws when a conversion does.
\<close>

definition promptLine :: "string \<Rightarrow> string" where
  "promptLine s = replicate 10 CHR '' '' @ s @ [CHR 0x0A]"

definition buildPrompt :: "(int \<Rightarrow> string) \<Rightarrow> jsval \<Rightarrow> jsval \<Rightarrow> string option" where
  "buildPrompt numberToString rating reviewText =
     (case toString numberToString rating of
        None \<Rightarrow> None
      | Some ratingText \<Rightarrow>
          (case toString numberToString reviewText of
             None \<Rightarrow> None
           | Some review \<Rightarrow> Some (
               [CHR 0x0A] @
               promptLine ''You are an AI feedback assistant for a customer feedback system.'' @
               promptLine ''A user has submitted a review with the following details:'' @
               promptLine (''Rating: '' @ ratingText @ '' / 5 stars'') @
               promptLine (''Review: '' @ [CHR 0x22] @ review @ [CHR 0x22]) @
               [CHR 0x0A] @
               promptLine ''Please perform the following tasks:'' @
               promptLine ''1. Write a polite, empathetic, and personalized response to the user (max 50 words).'' @
               promptLine ''2. Summarize the review for the admin in one concise sentence.'' @
               promptLine ''3. Suggest 3 concrete, actionable steps the business should take based on this specific feedback.'' @
               promptLine ''4. Determine the sentiment (Positive, Neutral, or Negative).'' @
               replicate 8 CHR '' '')))"

text \<open>
  The body of \<open>if (!aiAnalysis) { ... }\<close> in the POST handler. \<open>JSON.parse\<close> is the
  language's own parser and is taken as a parameter: \<open>None\<close> is its \<open>SyntaxError\<close>.
  An error thrown by the template literal, by the retry executor or by the parser is
  caught and leaves \<open>aiAnalysis\<close> as it was; a value that is still falsy afterwards is
  replaced by the fallback.
\<close>

definition enrich ::
  "(string \<Rightarrow> jsval option) \<Rightarrow> (int \<Rightarrow> string) \<Rightarrow> jsval \<Rightarrow> jsval \<Rightarrow> jsval \<Rightarrow> server
     \<Rightarrow> jsval \<times> server"
where
  "enrich parse numberToString rating reviewText aiAnalysis0 st =
     (let (aiAnalysis, st1) =
            (case buildPrompt numberToString rating reviewText of
               None \<Rightarrow> (aiAnalysis0, st)
             | Some prompt \<Rightarrow>
                 (let (response, st1) = generateContentWithRetry prompt 3 1000 st in
                  (case response of
                     Inr (RResponse (Some t)) \<Rightarrow>
                       (if t \<noteq> [] then
                          (case parse t of Some v \<Rightarrow> v | None \<Rightarrow> aiAnalysis0)
                        else aiAnalysis0)
                   | _ \<Rightarrow> aiAnalysis0,
                   st1)))
      in (if \<not> truthy aiAnalysis then fallbackAnalysis else aiAnalysis, st1))"

text \<open>
  The handler. \<open>body\<close> is the JSON object of the request, \<open>uuid\<close> is what
  \<open>uuidv4()\<close> returns and \<open>now\<close> what \<open>Date.now()\<close> returns for this request.
\<close>

definition newSubmission :: "string \<Rightarrow> jsval \<Rightarrow> jsval \<Rightarrow> int \<Rightarrow> jsval \<Rightarrow> obj" where
  "newSubmission uuid rating reviewText now aiAnalysis =
     [(''id'', JStr uuid),
      (''rating'', rating),
      (''reviewText'', reviewText),
      (''timestamp'', JNum now),
      (''aiAnalysis'', aiAnalysis),
      (''helpfulResponse'', JNull)]"

definition postFeedback ::
  "(string \<Rightarrow> jsval option) \<Rightarrow> (int \<Rightarrow> string) \<Rightarrow> string \<Rightarrow> int \<Rightarrow> obj \<Rightarrow> server
     \<Rightarrow> http_response \<times> server"
where
  "postFeedback parse numberToString uuid now body st =
     (let rating = getProp body ''rating'';
          reviewText = getProp body ''reviewText'';
          aiAnalysis0 = getProp body ''aiAnalysis'';
          (aiAnalysis, st1) =
            (if \<not> truthy aiAnalysis0 then enrich parse numberToString rating reviewText aiAnalysis0 st
             else (aiAnalysis0, st));
          submission = newSubmission uuid rating reviewText now aiAnalysis
      in if useMongo st1 then
           (case mongoSave submission st1 of
              Inl m \<Rightarrow> (\<lparr>statusCode = 400, json = errorBody m\<rparr>, st1)
            | Inr (newFeedback, st2) \<Rightarrow> (\<lparr>statusCode = 201, json = JObj newFeedback\<rparr>, st2))
         else
           (\<lparr>statusCode = 201, json = JObj submission\<rparr>,
            st1\<lparr>feedbackMemory := feedbackMemory st1 @ [submission]\<rparr>))"

subsection \<open>PATCH /api/feedback/:id\<close>

definition patchFeedback :: "string \<Rightarrow> obj \<Rightarrow> server \<Rightarrow> http_response \<times> server" where
  "patchFeedback ident body st =
     (if useMongo st then
        (case mongoFindOneAndUpdate ident body st of
           Inl m \<Rightarrow> (\<lparr>statusCode = 400, json = errorBody m\<rparr>, st)
         | Inr (updatedFeedback, st1) \<Rightarrow> (\<lparr>statusCode = 200, json = updatedFeedback\<rparr>, st1))
      else
        (let index = findIndex (\<lambda>f. getProp f ''id'' = JStr ident) (feedbackMemory st) in
         if index \<noteq> - 1 then
           (let merged = spread (feedbackMemory st ! nat index) body in
            (\<lparr>statusCode = 200, json = JObj merged\<rparr>,
             st\<lparr>feedbackMemory := (feedbackMemory st)[nat index := merged]\<rparr>))
         else (\<lparr>statusCode = 404, json = errorBody ''Not found''\<rparr>, st)))"


section \<open>Notions used by the properties\<close>

text \<open>The records held by the backend in use.\<close>

definition storedRecords :: "server \<Rightarrow> obj list" where
  "storedRecords st = (if useMongo st then collection st else feedbackMemory st)"

text \<open>\<open>a\<close> and \<open>b\<close> both carry a numeric timestamp, and \<open>a\<close>'s is not the older one.\<close>

definition notOlder :: "obj \<Rightarrow> obj \<Rightarrow> bool" where
  "notOlder a b =
     (case (timestampOf a, timestampOf b) of (Some ta, Some tb) \<Rightarrow> tb \<le> ta | _ \<Rightarrow> False)"

text \<open>The four fields of an AnalysisResult are present.\<close>

definition hasAnalysisFields :: "jsval \<Rightarrow> bool" where
  "hasAnalysisFields v =
     (case v of
        JObj kvs \<Rightarrow>
          map_of kvs ''userResponse'' \<noteq> None \<and> map_of kvs ''summary'' \<noteq> None \<and>
          map_of kvs ''recommendedActions'' \<noteq> None \<and> map_of kvs ''sentiment'' \<noteq> None
      | _ \<Rightarrow> False)"


section \<open>Example inputs\<close>

text \<open>Provider stubs: always failing fatally; transient twice, then fine; fatal once, then fine; always fine.\<close>

definition failingProvider :: provider where
  "failingProvider n q = Throws \<lparr>status = Some 500, message = Some ''Internal error''\<rparr>"

definition flakyProvider :: provider where
  "flakyProvider n q =
     (if n = 0 then Throws \<lparr>status = Some 429, message = Some ''Too Many Requests''\<rparr>
      else if n = 1 then Throws \<lparr>status = Some 503, message = Some ''Service Unavailable''\<rparr>
      else Returns (Some ''{}''))"

definition fatalOnceProvider :: provider where
  "fatalOnceProvider n q =
     (if n = 0 then Throws \<lparr>status = Some 400, message = Some ''Bad Request''\<rparr>
      else Returns (Some ''{}''))"

definition helpfulProvider :: provider where
  "helpfulProvider n q = Returns (Some ''analysis'')"

text \<open>Parser stubs: they know one text each.\<close>

definition parseStub :: "string \<Rightarrow> jsval option" where
  "parseStub t = (if t = ''{}'' then Some (JObj []) else None)"

definition sampleAnalysis :: jsval where
  "sampleAnalysis = JObj
     [(''userResponse'', JStr ''Thanks a lot!''),
      (''summary'', JStr ''Happy customer.''),
      (''recommendedActions'', JArr [JStr ''Keep it up'']),
      (''sentiment'', JStr ''Positive'')]"

definition parseAnalysis :: "string \<Rightarrow> jsval option" where
  "parseAnalysis t = (if t = ''analysis'' then Some sampleAnalysis else None)"

text \<open>Decimal digits, which is how JavaScript prints an integer of ordinary size.\<close>

fun digits :: "nat \<Rightarrow> string" where
  "digits n =
     (if n < 10 then [''0123456789'' ! n]
      else digits (n div 10) @ [''0123456789'' ! (n mod 10)])"

declare digits.simps [simp del]

definition decimal :: "int \<Rightarrow> string" where
  "decimal n = (if n < 0 then CHR ''-'' # digits (nat (- n)) else digits (nat n))"

text \<open>
  Two test doubles of the database library. The first holds every document as it is
  handed over. The second does what the library does with the two documents it is used
  on below: it rejects the rating \<open>abc\<close>, which cannot be cast to the schema's Number,
  and it leaves out an \<open>aiAnalysis\<close> that is a string, which is no nested object.
\<close>

definition plainModel :: "(string \<times> schema_type) list \<Rightarrow> obj \<Rightarrow> string + obj" where
  "plainModel schema doc = Inr doc"

definition castingModel :: "(string \<times> schema_type) list \<Rightarrow> obj \<Rightarrow> string + obj" where
  "castingModel schema doc =
     (if getProp doc ''rating'' = JStr ''abc'' then Inl ''Cast to Number failed at path rating''
      else Inr (case getProp doc ''aiAnalysis'' of
                  JStr s \<Rightarrow> AList.delete ''aiAnalysis'' doc
                | _ \<Rightarrow> doc))"

text \<open>A freshly started server with nothing stored.\<close>

definition emptyServer :: "provider option \<Rightarrow> bool \<Rightarrow> server" where
  "emptyServer ai mongo =
     \<lparr>genAI = ai, mongooseModel = plainModel, useMongo = mongo, feedbackMemory = [],
      collection = [], dbError = None, calls = 0, slept = []\<rparr>"

definition sampleBody :: obj where
  "sampleBody = [(''rating'', JNum 5), (''reviewText'', JStr ''Great service!'')]"

definition sampleRecord :: obj where
  "sampleRecord = newSubmission ''id-1'' (JNum 5) (JStr ''Great service!'') 1000 fallbackAnalysis"

definition afterThreePosts :: "bool \<Rightarrow> server" where
  "afterThreePosts mongo =
     snd (postFeedback parseStub decimal ''id-3'' 3000 sampleBody
       (snd (postFeedback parseStub decimal ''id-2'' 2000 sampleBody
         (snd (postFeedback parseStub decimal ''id-1'' 1000 sampleBody (emptyServer None mongo))))))"


section \<open>Auxiliary lemmas\<close>

subsection \<open>One step of the retry loop\<close>

lemma loop_throw_last:
  "i < retries \<Longrightarrow> int i = int retries - 1 \<Longrightarrow> p (calls st) prompt = Throws e \<Longrightarrow>
   generateContentLoop p prompt retries d i st = (Inl e, st\<lparr>calls := calls st + 1\<rparr>)"
  by (subst generateContentLoop.simps) (simp add: Let_def)

lemma loop_returns:
  "i < retries \<Longrightarrow> p (calls st) prompt = Returns r \<Longrightarrow>
   generateContentLoop p prompt retries d i st = (Inr (RResponse r), st\<lparr>calls := calls st + 1\<rparr>)"
  by (subst generateContentLoop.simps) (simp add: Let_def)

lemma loop_transient_step:
  "i + 1 < retries \<Longrightarrow> p (calls st) prompt = Throws e \<Longrightarrow> isTransient e \<Longrightarrow>
   generateContentLoop p prompt retries d i st =
   generateContentLoop p prompt retries d (i + 1)
     (st\<lparr>calls := calls st + 1, slept := slept st @ [d * 2 ^ i]\<rparr>)"
  by (subst generateContentLoop.simps) (simp add: Let_def)

lemma loop_fatal_step:
  "i + 1 < retries \<Longrightarrow> p (calls st) prompt = Throws e \<Longrightarrow> \<not> isTransient e \<Longrightarrow>
   generateContentLoop p prompt retries d i st =
   generateContentLoop p prompt retries d (i + 1) (st\<lparr>calls := calls st + 1\<rparr>)"
  by (subst generateContentLoop.simps) (simp add: Let_def)

lemma loop_exhausted:
  "\<not> i < retries \<Longrightarrow> generateContentLoop p prompt retries d i st = (Inr RUndefined, st)"
  by (subst generateContentLoop.simps) simp

subsection \<open>Runs of the retry loop\<close>


lemma loop_all_fatal:
  "(\<forall>k < retries - i. \<exists>e. p (calls st + k) prompt = Throws e \<and> \<not> isTransient e) \<Longrightarrow> i < retries \<Longrightarrow>
    \<exists>e. p (calls st + (retries - i) - 1) prompt = Throws e \<and>
      generateContentLoop p prompt retries d i st = (Inl e, st\<lparr>calls := calls st + (retries - i)\<rparr>)"
proof (induction "retries - i" arbitrary: i st)
  case 0
  then show ?case by simp
next
  case (Suc k)
  from Suc.prems(1) Suc.prems(2) obtain e where e: "p (calls st) prompt = Throws e" "\<not> isTransient e"
    by (metis add.right_neutral zero_less_diff)
  show ?case
  proof (cases "i + 1 < retries")
    case False
    with Suc.prems(2) have last: "int i = int retries - 1" by linarith
    then have "retries - i = 1" by linarith
    with loop_throw_last[where p=p and st=st and d=d, OF Suc.prems(2) last e(1)] e show ?thesis by simp
  next
    case True
    have k: "k = retries - (i + 1)" using Suc.hyps(2) by linarith
    let ?st = "st\<lparr>calls := calls st + 1\<rparr>"
    have "\<forall>j < retries - (i + 1). \<exists>e. p (calls ?st + j) prompt = Throws e \<and> \<not> isTransient e"
    proof (intro allI impI)
      fix j assume "j < retries - (i + 1)"
      then have "j + 1 < retries - i" by linarith
      with Suc.prems(1) have "\<exists>e. p (calls st + (j + 1)) prompt = Throws e \<and> \<not> isTransient e" by blast
      then show "\<exists>e. p (calls ?st + j) prompt = Throws e \<and> \<not> isTransient e" by (simp add: add.commute add.left_commute)
    qed
    from Suc.hyps(1)[OF k this True]
    obtain e' where e': "p (calls ?st + (retries - (i + 1)) - 1) prompt = Throws e'"
      "generateContentLoop p prompt retries d (i + 1) ?st = (Inl e', ?st\<lparr>calls := calls ?st + (retries - (i + 1))\<rparr>)"
      by blast
    have eq1: "calls ?st + (retries - (i + 1)) - 1 = calls st + (retries - i) - 1" using True by simp
    have eq2: "calls ?st + (retries - (i + 1)) = calls st + (retries - i)" using True by simp
    from e' loop_fatal_step[where p=p and st=st and d=d, OF True e] show ?thesis
      unfolding eq1 eq2 by simp
  qed
qed

lemma loop_frame:
  "\<exists>res c s. generateContentLoop p prompt retries d i st = (res, st\<lparr>calls := c, slept := s\<rparr>)"
proof (induction "retries - i" arbitrary: i st)
  case 0
  then have "\<not> i < retries" by simp
  from loop_exhausted[OF this, of p prompt d st]
  have "generateContentLoop p prompt retries d i st = (Inr RUndefined, st\<lparr>calls := calls st, slept := slept st\<rparr>)"
    by simp
  then show ?case by blast
next
  case (Suc k)
  then have lt: "i < retries" by simp
  show ?case
  proof (cases "p (calls st) prompt")
    case (Returns r)
    from loop_returns[where p=p and st=st and d=d, OF lt Returns]
    have "generateContentLoop p prompt retries d i st
        = (Inr (RResponse r), st\<lparr>calls := calls st + 1, slept := slept st\<rparr>)" by simp
    then show ?thesis by blast
  next
    case (Throws e)
    show ?thesis
    proof (cases "i + 1 < retries")
      case False
      with lt have "int i = int retries - 1" by linarith
      from loop_throw_last[where p=p and st=st and d=d, OF lt this Throws]
      have "generateContentLoop p prompt retries d i st
          = (Inl e, st\<lparr>calls := calls st + 1, slept := slept st\<rparr>)" by simp
      then show ?thesis by blast
    next
      case True
      have k: "k = retries - (i + 1)" using Suc.hyps(2) by linarith
      show ?thesis
      proof (cases "isTransient e")
        case tr: True
        let ?st = "st\<lparr>calls := calls st + 1, slept := slept st @ [d * 2 ^ i]\<rparr>"
        from Suc.hyps(1)[OF k, of ?st] obtain res c s where
          "generateContentLoop p prompt retries d (i + 1) ?st = (res, ?st\<lparr>calls := c, slept := s\<rparr>)"
          by blast
        with loop_transient_step[where p=p and st=st and d=d, OF True Throws tr]
        have "generateContentLoop p prompt retries d i st = (res, st\<lparr>calls := c, slept := s\<rparr>)"
          by simp
        then show ?thesis by blast
      next
        case nt: False
        let ?st = "st\<lparr>calls := calls st + 1\<rparr>"
        from Suc.hyps(1)[OF k, of ?st] obtain res c s where
          "generateContentLoop p prompt retries d (i + 1) ?st = (res, ?st\<lparr>calls := c, slept := s\<rparr>)"
          by blast
        with loop_fatal_step[where p=p and st=st and d=d, OF True Throws nt]
        have "generateContentLoop p prompt retries d i st = (res, st\<lparr>calls := c, slept := s\<rparr>)"
          by simp
        then show ?thesis by blast
      qed
    qed
  qed
qed

lemma retry_frame:
  "\<exists>res c s. generateContentWithRetry prompt retries d st = (res, st\<lparr>calls := c, slept := s\<rparr>)"
proof (cases "genAI st")
  case None
  then have "generateContentWithRetry prompt retries d st = (Inr RNull, st\<lparr>calls := calls st, slept := slept st\<rparr>)"
    by (simp add: generateContentWithRetry_def)
  then show ?thesis by blast
next
  case (Some p)
  with loop_frame[of p prompt retries d 0 st] show ?thesis
    by (simp add: generateContentWithRetry_def)
qed


subsection \<open>Enrichment and the POST handler\<close>

lemma Feedback_frame [simp]: "Feedback (st\<lparr>calls := c, slept := s\<rparr>) = Feedback st"
  by (simp add: Feedback_def)

lemma enrich_value:
  assumes "\<not> truthy a0"
  shows "fst (enrich parse ns rating reviewText a0 st) =
     (case buildPrompt ns rating reviewText of
        None \<Rightarrow> fallbackAnalysis
      | Some prompt \<Rightarrow>
          (case fst (generateContentWithRetry prompt 3 1000 st) of
             Inr (RResponse (Some t)) \<Rightarrow>
               (if t \<noteq> [] then
                  (case parse t of
                     Some v \<Rightarrow> if truthy v then v else fallbackAnalysis
                   | None \<Rightarrow> fallbackAnalysis)
                else fallbackAnalysis)
           | _ \<Rightarrow> fallbackAnalysis))"
  using assms
  by (auto simp: enrich_def Let_def split: prod.splits sum.splits retval.splits option.splits)

lemma enrich_state:
  "snd (enrich parse ns rating reviewText a0 st) =
     (case buildPrompt ns rating reviewText of
        None \<Rightarrow> st
      | Some prompt \<Rightarrow> snd (generateContentWithRetry prompt 3 1000 st))"
  by (auto simp: enrich_def Let_def split: prod.splits sum.splits retval.splits option.splits)

lemma truthy_fallback: "truthy fallbackAnalysis"
  by (simp add: fallbackAnalysis_def)

lemma enrich_frame:
  "\<exists>a c s. enrich parse ns rating reviewText a0 st = (a, st\<lparr>calls := c, slept := s\<rparr>)
     \<and> (\<not> truthy a0 \<longrightarrow> truthy a)"
proof -
  have id: "st = st\<lparr>calls := calls st, slept := slept st\<rparr>" by simp
  have s: "\<exists>c s. snd (enrich parse ns rating reviewText a0 st) = st\<lparr>calls := c, slept := s\<rparr>"
  proof (cases "buildPrompt ns rating reviewText")
    case None
    then show ?thesis using id by (metis enrich_state option.simps(4))
  next
    case (Some prompt)
    from retry_frame[of prompt 3 1000 st] obtain res c s where
      "generateContentWithRetry prompt 3 1000 st = (res, st\<lparr>calls := c, slept := s\<rparr>)" by blast
    with Some have "snd (enrich parse ns rating reviewText a0 st) = st\<lparr>calls := c, slept := s\<rparr>"
      by (simp add: enrich_state)
    then show ?thesis by blast
  qed
  have t: "\<not> truthy a0 \<longrightarrow> truthy (fst (enrich parse ns rating reviewText a0 st))"
    by (auto simp: enrich_value truthy_fallback split: option.splits sum.splits retval.splits)
  from s t show ?thesis by (metis prod.collapse)
qed

lemma analysis_step:
  "\<exists>a c s.
     (if \<not> truthy a0 then enrich parse ns rating reviewText a0 st else (a0, st))
       = (a, st\<lparr>calls := c, slept := s\<rparr>)
     \<and> truthy a
     \<and> a = (if truthy a0 then a0 else fst (enrich parse ns rating reviewText a0 st))"
proof (cases "truthy a0")
  case True
  have "st = st\<lparr>calls := calls st, slept := slept st\<rparr>" by simp
  then have "(if \<not> truthy a0 then enrich parse ns rating reviewText a0 st else (a0, st))
      = (a0, st\<lparr>calls := calls st, slept := slept st\<rparr>)" using True by simp
  with True show ?thesis
    by (intro exI[of _ a0] exI[of _ "calls st"] exI[of _ "slept st"]) simp
next
  case False
  from enrich_frame[of parse ns rating reviewText a0 st]
  obtain a c s where
    e: "enrich parse ns rating reviewText a0 st = (a, st\<lparr>calls := c, slept := s\<rparr>)"
    and t: "\<not> truthy a0 \<longrightarrow> truthy a" by blast
  with False show ?thesis
    by (intro exI[of _ a] exI[of _ c] exI[of _ s]) simp
qed

lemma enrich_disabled:
  assumes "genAI st = None" and "\<not> truthy a0"
  shows "enrich parse ns rating reviewText a0 st = (fallbackAnalysis, st)"
  using assms
  by (auto simp: enrich_def generateContentWithRetry_def Let_def split: option.splits)


lemma hasAnalysisFields_fallback: "hasAnalysisFields fallbackAnalysis"
  by (simp add: hasAnalysisFields_def fallbackAnalysis_def)

lemma getProp_newSubmission:
  "getProp (newSubmission uuid r t now a) ''aiAnalysis'' = a"
  "getProp (newSubmission uuid r t now a) ''rating'' = r"
  "getProp (newSubmission uuid r t now a) ''reviewText'' = t"
  "getProp (newSubmission uuid r t now a) ''id'' = JStr uuid"
  "getProp (newSubmission uuid r t now a) ''timestamp'' = JNum now"
  "getProp (newSubmission uuid r t now a) ''helpfulResponse'' = JNull"
  by (simp_all add: getProp_def newSubmission_def)

text \<open>The POST handler, once the analysis and the state after the enrichment are known.\<close>

lemma postFeedback_in_memory:
  assumes "\<not> useMongo st"
    and "(if \<not> truthy (getProp body ''aiAnalysis'')
          then enrich parse ns (getProp body ''rating'') (getProp body ''reviewText'')
                 (getProp body ''aiAnalysis'') st
          else (getProp body ''aiAnalysis'', st)) = (a, st\<lparr>calls := c, slept := s\<rparr>)"
  shows "postFeedback parse ns uuid now body st =
     (\<lparr>statusCode = 201,
       json = JObj (newSubmission uuid (getProp body ''rating'') (getProp body ''reviewText'') now a)\<rparr>,
      st\<lparr>calls := c, slept := s,
         feedbackMemory := feedbackMemory st @
           [newSubmission uuid (getProp body ''rating'') (getProp body ''reviewText'') now a]\<rparr>)"
  using assms by (simp add: postFeedback_def Let_def)

lemma postFeedback_durable:
  assumes "useMongo st"
    and "(if \<not> truthy (getProp body ''aiAnalysis'')
          then enrich parse ns (getProp body ''rating'') (getProp body ''reviewText'')
                 (getProp body ''aiAnalysis'') st
          else (getProp body ''aiAnalysis'', st)) = (a, st\<lparr>calls := c, slept := s\<rparr>)"
  shows "postFeedback parse ns uuid now body st =
     (case Feedback st
             (newSubmission uuid (getProp body ''rating'') (getProp body ''reviewText'') now a) of
        Inl m \<Rightarrow> (\<lparr>statusCode = 400, json = errorBody m\<rparr>, st\<lparr>calls := c, slept := s\<rparr>)
      | Inr doc \<Rightarrow>
          (case dbError st of
             Some m \<Rightarrow> (\<lparr>statusCode = 400, json = errorBody m\<rparr>, st\<lparr>calls := c, slept := s\<rparr>)
           | None \<Rightarrow>
               (\<lparr>statusCode = 201, json = JObj doc\<rparr>,
                st\<lparr>calls := c, slept := s, collection := collection st @ [doc]\<rparr>)))"
  using assms
  by (simp add: postFeedback_def Let_def mongoSave_def split: sum.splits option.splits)

lemma eval_failing: "isTransient \<lparr>status = Some 500, message = Some ''Internal error''\<rparr> = False"
  by (simp add: isTransient_def)

lemma postFeedback_disabled:
  assumes "genAI st = None" and "\<not> truthy (getProp body ''aiAnalysis'')"
  shows "postFeedback parse ns uuid now body st =
     (if useMongo st then
        (case Feedback st
                (newSubmission uuid (getProp body ''rating'') (getProp body ''reviewText'') now
                   fallbackAnalysis) of
           Inl m \<Rightarrow> (\<lparr>statusCode = 400, json = errorBody m\<rparr>, st)
         | Inr doc \<Rightarrow>
             (case dbError st of
                Some m \<Rightarrow> (\<lparr>statusCode = 400, json = errorBody m\<rparr>, st)
              | None \<Rightarrow>
                  (\<lparr>statusCode = 201, json = JObj doc\<rparr>, st\<lparr>collection := collection st @ [doc]\<rparr>)))
      else
        (\<lparr>statusCode = 201,
          json = JObj (newSubmission uuid (getProp body ''rating'') (getProp body ''reviewText'') now
                         fallbackAnalysis)\<rparr>,
         st\<lparr>feedbackMemory := feedbackMemory st @
              [newSubmission uuid (getProp body ''rating'') (getProp body ''reviewText'') now
                 fallbackAnalysis]\<rparr>))"
proof -
  have id: "st = st\<lparr>calls := calls st, slept := slept st\<rparr>" by simp
  have step: "(if \<not> truthy (getProp body ''aiAnalysis'')
          then enrich parse ns (getProp body ''rating'') (getProp body ''reviewText'')
                 (getProp body ''aiAnalysis'') st
          else (getProp body ''aiAnalysis'', st))
        = (fallbackAnalysis, st\<lparr>calls := calls st, slept := slept st\<rparr>)"
    using assms enrich_disabled[OF assms] by simp
  show ?thesis
  proof (cases "useMongo st")
    case True
    from postFeedback_durable[OF True step, of uuid now] True show ?thesis
      by (simp split: sum.splits option.splits)
  next
    case False
    from postFeedback_in_memory[OF False step, of uuid now] False show ?thesis by simp
  qed
qed

lemma postFeedback_supplied:
  assumes "truthy (getProp body ''aiAnalysis'')"
  shows "postFeedback parse ns uuid now body st =
     (if useMongo st then
        (case Feedback st
                (newSubmission uuid (getProp body ''rating'') (getProp body ''reviewText'') now
                   (getProp body ''aiAnalysis'')) of
           Inl m \<Rightarrow> (\<lparr>statusCode = 400, json = errorBody m\<rparr>, st)
         | Inr doc \<Rightarrow>
             (case dbError st of
                Some m \<Rightarrow> (\<lparr>statusCode = 400, json = errorBody m\<rparr>, st)
              | None \<Rightarrow>
                  (\<lparr>statusCode = 201, json = JObj doc\<rparr>, st\<lparr>collection := collection st @ [doc]\<rparr>)))
      else
        (\<lparr>statusCode = 201,
          json = JObj (newSubmission uuid (getProp body ''rating'') (getProp body ''reviewText'') now
                         (getProp body ''aiAnalysis''))\<rparr>,
         st\<lparr>feedbackMemory := feedbackMemory st @
              [newSubmission uuid (getProp body ''rating'') (getProp body ''reviewText'') now
                 (getProp body ''aiAnalysis'')]\<rparr>))"
proof -
  have step: "(if \<not> truthy (getProp body ''aiAnalysis'')
          then enrich parse ns (getProp body ''rating'') (getProp body ''reviewText'')
                 (getProp body ''aiAnalysis'') st
          else (getProp body ''aiAnalysis'', st))
        = (getProp body ''aiAnalysis'', st\<lparr>calls := calls st, slept := slept st\<rparr>)"
    using assms by simp
  show ?thesis
  proof (cases "useMongo st")
    case True
    from postFeedback_durable[OF True step, of uuid now] True show ?thesis
      by (simp split: sum.splits option.splits)
  next
    case False
    from postFeedback_in_memory[OF False step, of uuid now] False show ?thesis by simp
  qed
qed

subsection \<open>Sorting by timestamp\<close>

lemma mset_insertSorted: "mset (insertSorted x ys) = add_mset x (mset ys)"
  by (induction ys) auto

lemma mset_sortDesc: "mset (sortDesc xs) = mset xs"
  unfolding sortDesc_def by (induction xs) (auto simp: mset_insertSorted)

lemma set_insertSorted: "set (insertSorted x ys) = insert x (set ys)"
  by (induction ys) auto

lemma set_sortDesc: "set (sortDesc xs) = set xs"
  unfolding sortDesc_def by (induction xs) (auto simp: set_insertSorted)

lemma placedAfter_numeric:
  "timestampOf a = Some ta \<Longrightarrow> timestampOf b = Some tb \<Longrightarrow> placedAfter a b = (ta < tb)"
  by (simp add: placedAfter_def compareDesc_def)

lemma notOlder_numeric:
  "timestampOf a = Some ta \<Longrightarrow> timestampOf b = Some tb \<Longrightarrow> notOlder a b = (tb \<le> ta)"
  by (simp add: notOlder_def)

lemma sorted_insertSorted:
  assumes "\<exists>t. timestampOf x = Some t" "\<forall>r\<in>set ys. \<exists>t. timestampOf r = Some t"
    and "sorted_wrt notOlder ys"
  shows "sorted_wrt notOlder (insertSorted x ys)"
  using assms
proof (induction ys)
  case Nil
  then show ?case by simp
next
  case (Cons y ys)
  from Cons.prems obtain tx ty where t: "timestampOf x = Some tx" "timestampOf y = Some ty"
    by auto
  show ?case
  proof (cases "placedAfter x y")
    case True
    then have "tx < ty" using t by (simp add: placedAfter_numeric)
    then have "notOlder y x" using t by (simp add: notOlder_numeric)
    moreover have "sorted_wrt notOlder (insertSorted x ys)"
      using Cons by simp
    ultimately show ?thesis using True Cons.prems(3)
      by (auto simp: set_insertSorted)
  next
    case False
    then have le: "ty \<le> tx" using t by (simp add: placedAfter_numeric)
    have "notOlder x z" if z: "z \<in> set (y # ys)" for z
    proof -
      from Cons.prems(2) z obtain tz where tz: "timestampOf z = Some tz" by auto
      have "tz \<le> ty"
      proof (cases "z = y")
        case True
        then show ?thesis using t tz by simp
      next
        case False
        with z Cons.prems(3) have "notOlder y z" by auto
        then show ?thesis using t tz by (simp add: notOlder_numeric)
      qed
      with le show ?thesis using t tz by (simp add: notOlder_numeric)
    qed
    then show ?thesis using False Cons.prems(3) by auto
  qed
qed

lemma sorted_sortDesc:
  "\<forall>r\<in>set xs. \<exists>t. timestampOf r = Some t \<Longrightarrow> sorted_wrt notOlder (sortDesc xs)"
proof (induction xs)
  case Nil
  then show ?case by (simp add: sortDesc_def)
next
  case (Cons x xs)
  have "sortDesc (x # xs) = insertSorted x (sortDesc xs)" by (simp add: sortDesc_def)
  moreover have "sorted_wrt notOlder (insertSorted x (sortDesc xs))"
    using Cons by (intro sorted_insertSorted) (auto simp: set_sortDesc)
  ultimately show ?case by simp
qed

lemma sortDesc_three:
  assumes "timestampOf r1 = Some t1" "timestampOf r2 = Some t2" "timestampOf r3 = Some t3"
    and "t1 < t2" "t2 < t3"
  shows "sortDesc [r1, r2, r3] = [r3, r2, r1]"
  using assms by (simp add: sortDesc_def placedAfter_numeric)

lemma getFeedback_listing:
  assumes "useMongo st \<longrightarrow> dbError st = None"
  shows "fst (getFeedback st) = \<lparr>statusCode = 200, json = JArr (map JObj (sortDesc (storedRecords st)))\<rparr>"
  using assms by (auto simp: getFeedback_def mongoFindSorted_def storedRecords_def Let_def)

subsection \<open>Spread, lookup and the PATCH handler\<close>

lemma map_of_spread: "map_of (spread a b) = map_of a ++ map_of (rev b)"
  unfolding spread_def
proof (induction b arbitrary: a)
  case Nil
  then show ?case by simp
next
  case (Cons kv b)
  have "map_of (fold (\<lambda>kv acc. AList.update (fst kv) (snd kv) acc) (kv # b) a)
      = map_of (AList.update (fst kv) (snd kv) a) ++ map_of (rev b)"
    using Cons.IH[of "AList.update (fst kv) (snd kv) a"] by simp
  also have "\<dots> = map_of a ++ map_of (rev (kv # b))"
    by (cases kv) (simp add: update_conv' map_add_upd_left fun_eq_iff map_add_def split: option.splits)
  finally show ?case .
qed

lemma getProp_spread:
  "getProp (spread a b) k = (case map_of (rev b) k of Some v \<Rightarrow> v | None \<Rightarrow> getProp a k)"
  by (simp add: getProp_def map_of_spread map_add_def split: option.splits)

lemma findIndex_absent: "\<forall>x\<in>set xs. \<not> P x \<Longrightarrow> findIndex P xs = - 1"
  by (induction xs) (auto simp: Let_def)

lemma findIndex_lower: "- 1 \<le> findIndex P xs"
  by (induction xs) (auto simp: Let_def)

lemma findIndex_found:
  "List.find P xs = Some y \<Longrightarrow>
     \<exists>i. findIndex P xs = int i \<and> i < length xs \<and> xs ! i = y"
proof (induction xs)
  case Nil
  then show ?case by simp
next
  case (Cons x xs)
  show ?case
  proof (cases "P x")
    case True
    with Cons.prems show ?thesis by (intro exI[of _ 0]) simp
  next
    case False
    with Cons.prems have "List.find P xs = Some y" by simp
    from Cons.IH[OF this] obtain i where i: "findIndex P xs = int i" "i < length xs" "xs ! i = y"
      by blast
    then show ?thesis using False by (intro exI[of _ "Suc i"]) (simp add: Let_def)
  qed
qed

lemma patch_unknown_in_memory:
  assumes "\<not> useMongo st" and "\<forall>f\<in>set (feedbackMemory st). getProp f ''id'' \<noteq> JStr ident"
  shows "patchFeedback ident body st = (\<lparr>statusCode = 404, json = errorBody ''Not found''\<rparr>, st)"
  using assms findIndex_absent[of "feedbackMemory st" "\<lambda>f. getProp f ''id'' = JStr ident"]
  by (simp add: patchFeedback_def Let_def)

lemma patch_unknown_durable:
  assumes "useMongo st" and "dbError st = None"
    and "\<forall>f\<in>set (collection st). getProp f ''id'' \<noteq> JStr ident"
  shows "patchFeedback ident body st = (\<lparr>statusCode = 200, json = JNull\<rparr>, st)"
  using assms findIndex_absent[of "collection st" "\<lambda>f. getProp f ''id'' = JStr ident"]
  by (simp add: patchFeedback_def mongoFindOneAndUpdate_def Let_def)

lemma patch_known:
  assumes store_ok: "useMongo st \<longrightarrow> dbError st = None"
    and found: "List.find (\<lambda>f. getProp f ''id'' = JStr ident) (storedRecords st) = Some old"
  shows "\<exists>i. i < length (storedRecords st) \<and> storedRecords st ! i = old \<and>
           patchFeedback ident body st =
             (\<lparr>statusCode = 200, json = JObj (spread old body)\<rparr>,
              if useMongo st then st\<lparr>collection := (collection st)[i := spread old body]\<rparr>
              else st\<lparr>feedbackMemory := (feedbackMemory st)[i := spread old body]\<rparr>)"
proof -
  from findIndex_found[OF found] obtain i where
    i: "findIndex (\<lambda>f. getProp f ''id'' = JStr ident) (storedRecords st) = int i"
       "i < length (storedRecords st)" "storedRecords st ! i = old" by blast
  show ?thesis
  proof (cases "useMongo st")
    case True
    with i store_ok show ?thesis
      by (intro exI[of _ i]) (simp add: patchFeedback_def mongoFindOneAndUpdate_def storedRecords_def Let_def)
  next
    case False
    with i show ?thesis
      by (intro exI[of _ i]) (simp add: patchFeedback_def storedRecords_def Let_def)
  qed
qed



section \<open>Properties\<close>

subsection \<open>Fallback on AI unavailability\<close>




subsection \<open>Fatal provider errors\<close>

text \<open>
  Claim C2, as stated, fails: a provider that fails fatally (status 400) on its first call
  and answers on the second is invoked twice by the retry executor, which returns the
  second call's response instead of propagating the failure; the enrichment step then
  returns the parsed reply, not the fallback.
\<close>

theorem fatal_short_circuit_counterexample:
  "generateContentWithRetry ''prompt'' 3 1000 (emptyServer (Some fatalOnceProvider) False) =
     (Inr (RResponse (Some ''{}'')), (emptyServer (Some fatalOnceProvider) False)\<lparr>calls := 2\<rparr>)
   \<and> \<not> isTransient \<lparr>status = Some 400, message = Some ''Bad Request''\<rparr>
   \<and> fst (enrich parseStub decimal (JNum 5) (JStr ''ok'') JUndefined
            (emptyServer (Some fatalOnceProvider) False)) = JObj []
   \<and> JObj [] \<noteq> fallbackAnalysis"
proof -
  let ?st = "emptyServer (Some fatalOnceProvider) False"
  have nt: "\<not> isTransient \<lparr>status = Some 400, message = Some ''Bad Request''\<rparr>"
    by (simp add: isTransient_def)
  have run: "generateContentLoop fatalOnceProvider q 3 1000 0 ?st
      = (Inr (RResponse (Some ''{}'')), ?st\<lparr>calls := 2\<rparr>)" for q
    apply (subst loop_fatal_step[where e = "\<lparr>status = Some 400, message = Some ''Bad Request''\<rparr>"])
       apply (simp_all add: nt fatalOnceProvider_def emptyServer_def)
    apply (subst loop_returns[where r = "Some ''{}''"])
      apply (simp_all add: fatalOnceProvider_def)
    done
  then have g: "generateContentWithRetry q 3 1000 ?st
      = (Inr (RResponse (Some ''{}'')), ?st\<lparr>calls := 2\<rparr>)" for q
    by (simp add: generateContentWithRetry_def emptyServer_def)
  show ?thesis
    using nt g by (simp add: enrich_def buildPrompt_def parseStub_def fallbackAnalysis_def)
qed

text \<open>
  Claim C2, amended. When the provider fails with a non-transient error on the first
  attempt, the retry executor waits no backoff delay for it, and it propagates that
  failure only when no further attempt is allowed (\<open>retries = 1\<close>). Otherwise the next
  attempt follows at once: with the defaults the provider is invoked a second time, a
  success of the second or of the third call is the result, a transient failure of the
  second call is followed by its delay, and only a failure of the third call is
  propagated. When every attempt fails with a non-transient error, the provider is invoked
  exactly \<open>retries\<close> times, no delay is waited, the error of the final attempt is
  propagated, and the enrichment step returns the fallback AnalysisResult (after three
  provider calls, or none when the prompt could not be built).
\<close>

theorem fatal_error_on_first_attempt:
  assumes ai: "genAI st = Some p"
    and first: "p (calls st) prompt = Throws e1"
    and fatal: "\<not> isTransient e1"
  shows "generateContentWithRetry prompt 3 initialDelay st =
           (case p (calls st + 1) prompt of
              Returns r \<Rightarrow> (Inr (RResponse r), st\<lparr>calls := calls st + 2\<rparr>)
            | Throws e2 \<Rightarrow>
                (case p (calls st + 2) prompt of
                   Returns r \<Rightarrow>
                     (Inr (RResponse r),
                      st\<lparr>calls := calls st + 3,
                         slept := slept st @ (if isTransient e2 then [initialDelay * 2 ^ 1] else [])\<rparr>)
                 | Throws e3 \<Rightarrow>
                     (Inl e3,
                      st\<lparr>calls := calls st + 3,
                         slept := slept st @ (if isTransient e2 then [initialDelay * 2 ^ 1] else [])\<rparr>)))
       \<and> (retries = 1 \<longrightarrow>
            generateContentWithRetry prompt retries initialDelay st =
              (Inl e1, st\<lparr>calls := calls st + 1\<rparr>))
       \<and> (1 < retries \<longrightarrow>
            generateContentWithRetry prompt retries initialDelay st =
              generateContentLoop p prompt retries initialDelay 1 (st\<lparr>calls := calls st + 1\<rparr>))
       \<and> (0 < retries
            \<and> (\<forall>k < retries. \<exists>e. p (calls st + k) prompt = Throws e \<and> \<not> isTransient e) \<longrightarrow>
            (\<exists>e. p (calls st + retries - 1) prompt = Throws e
               \<and> generateContentWithRetry prompt retries initialDelay st =
                   (Inl e, st\<lparr>calls := calls st + retries\<rparr>)))
       \<and> ((\<forall>k < 3. \<forall>q. \<exists>e. p (calls st + k) q = Throws e \<and> \<not> isTransient e)
            \<and> \<not> truthy aiAnalysis0 \<longrightarrow>
            enrich parse ns rating reviewText aiAnalysis0 st =
              (fallbackAnalysis,
               case buildPrompt ns rating reviewText of
                 None \<Rightarrow> st
               | Some q \<Rightarrow> st\<lparr>calls := calls st + 3\<rparr>))"
proof (intro conjI impI)
  let ?s1 = "st\<lparr>calls := calls st + 1\<rparr>"
  have step1: "generateContentLoop p prompt n d 0 st = generateContentLoop p prompt n d (0 + 1) ?s1"
    if "1 < n" for n d
    by (rule loop_fatal_step[where p=p and st=st and prompt=prompt and e=e1 and i=0])
       (use that first fatal in simp_all)
  show "generateContentWithRetry prompt 3 initialDelay st =
           (case p (calls st + 1) prompt of
              Returns r \<Rightarrow> (Inr (RResponse r), st\<lparr>calls := calls st + 2\<rparr>)
            | Throws e2 \<Rightarrow>
                (case p (calls st + 2) prompt of
                   Returns r \<Rightarrow>
                     (Inr (RResponse r),
                      st\<lparr>calls := calls st + 3,
                         slept := slept st @ (if isTransient e2 then [initialDelay * 2 ^ 1] else [])\<rparr>)
                 | Throws e3 \<Rightarrow>
                     (Inl e3,
                      st\<lparr>calls := calls st + 3,
                         slept := slept st @ (if isTransient e2 then [initialDelay * 2 ^ 1] else [])\<rparr>)))"
  proof (cases "p (calls st + 1) prompt")
    case (Returns r)
    have "generateContentLoop p prompt 3 initialDelay (0 + 1) ?s1
        = (Inr (RResponse r), ?s1\<lparr>calls := calls ?s1 + 1\<rparr>)"
      by (rule loop_returns) (use Returns in simp_all)
    with step1[of 3 initialDelay] ai Returns show ?thesis
      by (simp add: generateContentWithRetry_def)
  next
    case (Throws e2)
    let ?s2 = "st\<lparr>calls := calls st + 2,
                  slept := slept st @ (if isTransient e2 then [initialDelay * 2 ^ 1] else [])\<rparr>"
    have step2: "generateContentLoop p prompt 3 initialDelay (0 + 1) ?s1
        = generateContentLoop p prompt 3 initialDelay (0 + 1 + 1) ?s2"
    proof (cases "isTransient e2")
      case True
      have "generateContentLoop p prompt 3 initialDelay (0 + 1) ?s1
        = generateContentLoop p prompt 3 initialDelay (0 + 1 + 1)
            (?s1\<lparr>calls := calls ?s1 + 1, slept := slept ?s1 @ [initialDelay * 2 ^ (0 + 1)]\<rparr>)"
        by (rule loop_transient_step[where e = e2]) (use Throws True in simp_all)
      then show ?thesis using True by simp
    next
      case False
      have "generateContentLoop p prompt 3 initialDelay (0 + 1) ?s1
        = generateContentLoop p prompt 3 initialDelay (0 + 1 + 1) (?s1\<lparr>calls := calls ?s1 + 1\<rparr>)"
        by (rule loop_fatal_step[where e = e2]) (use Throws False in simp_all)
      then show ?thesis using False by simp
    qed
    show ?thesis
    proof (cases "p (calls st + 2) prompt")
      case r: (Returns r)
      have "generateContentLoop p prompt 3 initialDelay (0 + 1 + 1) ?s2
          = (Inr (RResponse r), ?s2\<lparr>calls := calls ?s2 + 1\<rparr>)"
        by (rule loop_returns) (use r in simp_all)
      with step1[of 3 initialDelay] step2 ai Throws r show ?thesis
        by (simp add: generateContentWithRetry_def)
    next
      case t: (Throws e3)
      have "generateContentLoop p prompt 3 initialDelay (0 + 1 + 1) ?s2
          = (Inl e3, ?s2\<lparr>calls := calls ?s2 + 1\<rparr>)"
        by (rule loop_throw_last) (use t in simp_all)
      with step1[of 3 initialDelay] step2 ai Throws t show ?thesis
        by (simp add: generateContentWithRetry_def)
    qed
  qed
next
  assume "retries = 1"
  then have "generateContentLoop p prompt retries initialDelay 0 st = (Inl e1, st\<lparr>calls := calls st + 1\<rparr>)"
    by (intro loop_throw_last[where p=p and st=st and prompt=prompt and e=e1 and i=0])
       (use first in simp_all)
  then show "generateContentWithRetry prompt retries initialDelay st = (Inl e1, st\<lparr>calls := calls st + 1\<rparr>)"
    using ai by (simp add: generateContentWithRetry_def)
next
  assume "1 < retries"
  have "generateContentLoop p prompt retries initialDelay 0 st
      = generateContentLoop p prompt retries initialDelay (0 + 1) (st\<lparr>calls := calls st + 1\<rparr>)"
    by (rule loop_fatal_step[where p=p and st=st and prompt=prompt and e=e1 and i=0])
       (use \<open>1 < retries\<close> first fatal in simp_all)
  then show "generateContentWithRetry prompt retries initialDelay st =
              generateContentLoop p prompt retries initialDelay 1 (st\<lparr>calls := calls st + 1\<rparr>)"
    using ai by (simp add: generateContentWithRetry_def)
next
  assume a: "0 < retries
            \<and> (\<forall>k < retries. \<exists>e. p (calls st + k) prompt = Throws e \<and> \<not> isTransient e)"
  then have f: "\<forall>k < retries - 0. \<exists>e. p (calls st + k) prompt = Throws e \<and> \<not> isTransient e"
    and pos: "0 < retries" by simp_all
  from loop_all_fatal[where p=p and st=st and prompt=prompt and d=initialDelay, OF f pos] ai
  show "\<exists>e. p (calls st + retries - 1) prompt = Throws e
               \<and> generateContentWithRetry prompt retries initialDelay st =
                   (Inl e, st\<lparr>calls := calls st + retries\<rparr>)"
    by (simp add: generateContentWithRetry_def)
next
  assume a: "(\<forall>k < 3. \<forall>q. \<exists>e. p (calls st + k) q = Throws e \<and> \<not> isTransient e)
            \<and> \<not> truthy aiAnalysis0"
  show "enrich parse ns rating reviewText aiAnalysis0 st =
              (fallbackAnalysis,
               case buildPrompt ns rating reviewText of
                 None \<Rightarrow> st
               | Some q \<Rightarrow> st\<lparr>calls := calls st + 3\<rparr>)"
  proof (cases "buildPrompt ns rating reviewText")
    case None
    then show ?thesis using a by (simp add: enrich_def Let_def)
  next
    case (Some q)
    from a have f: "\<forall>k < 3 - 0. \<exists>e. p (calls st + k) q = Throws e \<and> \<not> isTransient e" by simp
    from loop_all_fatal[where p=p and st=st and prompt=q and d=1000 and retries=3, OF f] ai
    obtain e where "generateContentWithRetry q 3 1000 st = (Inl e, st\<lparr>calls := calls st + 3\<rparr>)"
      by (auto simp: generateContentWithRetry_def)
    then show ?thesis using Some a by (simp add: enrich_def Let_def)
  qed
qed

theorem fatal_error_on_first_attempt_witness:
  "generateContentWithRetry ''prompt'' 3 1000 (emptyServer (Some fatalOnceProvider) False) =
     (Inr (RResponse (Some ''{}'')), (emptyServer (Some fatalOnceProvider) False)\<lparr>calls := 2\<rparr>)
   \<and> generateContentWithRetry ''prompt'' 3 1000 (emptyServer (Some failingProvider) False) =
     (Inl \<lparr>status = Some 500, message = Some ''Internal error''\<rparr>,
      (emptyServer (Some failingProvider) False)\<lparr>calls := 3\<rparr>)
   \<and> slept (snd (generateContentWithRetry ''prompt'' 3 1000 (emptyServer (Some failingProvider) False))) = []
   \<and> enrich parseStub decimal (JNum 5) (JStr ''Great service!'') JUndefined
        (emptyServer (Some failingProvider) False)
       = (fallbackAnalysis, (emptyServer (Some failingProvider) False)\<lparr>calls := 3\<rparr>)"
proof -
  let ?once = "emptyServer (Some fatalOnceProvider) False"
  let ?st = "emptyServer (Some failingProvider) False"
  let ?e400 = "\<lparr>status = Some 400, message = Some ''Bad Request''\<rparr>"
  let ?e500 = "\<lparr>status = Some 500, message = Some ''Internal error''\<rparr>"
  have a1: "genAI ?once = Some fatalOnceProvider" by (simp add: emptyServer_def)
  have a2: "fatalOnceProvider (calls ?once) ''prompt'' = Throws ?e400"
    by (simp add: fatalOnceProvider_def emptyServer_def)
  have a3: "\<not> isTransient ?e400" by (simp add: isTransient_def)
  have second: "fatalOnceProvider (calls ?once + 1) ''prompt'' = Returns (Some ''{}'')"
    by (simp add: fatalOnceProvider_def)
  have h1: "genAI ?st = Some failingProvider" by (simp add: emptyServer_def)
  have h2: "failingProvider (calls ?st) ''prompt'' = Throws ?e500" by (simp add: failingProvider_def)
  have h3: "\<not> isTransient ?e500" by (simp add: eval_failing)
  have c0: "calls ?st = 0" "calls ?once = 0" by (simp_all add: emptyServer_def)
  have all: "failingProvider n q = Throws ?e500" for n q by (simp add: failingProvider_def)
  have prompt: "buildPrompt decimal (JNum 5) (JStr ''Great service!'') \<noteq> None"
    by (simp add: buildPrompt_def)
  note once = fatal_error_on_first_attempt[where retries=3 and initialDelay=1000, OF a1 a2 a3]
  note always = fatal_error_on_first_attempt[where retries=3 and initialDelay=1000
      and ?aiAnalysis0.0=JUndefined and parse=parseStub and ns=decimal and rating="JNum 5"
      and reviewText="JStr ''Great service!''", OF h1 h2 h3]
  have r1: "generateContentWithRetry ''prompt'' 3 1000 ?once =
     (Inr (RResponse (Some ''{}'')), ?once\<lparr>calls := 2\<rparr>)"
    using once second by (simp add: c0)
  have r2: "generateContentWithRetry ''prompt'' 3 1000 ?st = (Inl ?e500, ?st\<lparr>calls := 3\<rparr>)"
    using always by (simp add: all c0 eval_failing)
  have r3: "enrich parseStub decimal (JNum 5) (JStr ''Great service!'') JUndefined ?st
       = (fallbackAnalysis, ?st\<lparr>calls := 3\<rparr>)"
    using always prompt by (auto simp: all c0 eval_failing)
  from r1 r2 r3 show ?thesis by (simp add: emptyServer_def)
qed

subsection \<open>Transient provider errors\<close>

text \<open>
  Claim C3. When the provider fails with status 429 or 503 on the first two attempts and
  succeeds on the third, the retry executor with 3 attempts returns the successful
  response, has invoked the provider exactly 3 times, and has waited
  \<open>initialDelay * 2^0\<close> and then \<open>initialDelay * 2^1\<close>: 1000 ms and 2000 ms at the
  defaults, 3000 ms in total.
\<close>

theorem retry_bound:
  assumes ai: "genAI st = Some p"
    and first: "p (calls st) prompt = Throws e1" "status e1 = Some 429 \<or> status e1 = Some 503"
    and second: "p (calls st + 1) prompt = Throws e2" "status e2 = Some 429 \<or> status e2 = Some 503"
    and third: "p (calls st + 2) prompt = Returns r"
  shows "generateContentWithRetry prompt 3 initialDelay st =
           (Inr (RResponse r),
            st\<lparr>calls := calls st + 3,
               slept := slept st @ [initialDelay * 2 ^ 0, initialDelay * 2 ^ 1]\<rparr>)
       \<and> generateContentWithRetry prompt 3 1000 st =
           (Inr (RResponse r), st\<lparr>calls := calls st + 3, slept := slept st @ [1000, 2000]\<rparr>)
       \<and> sum_list (slept (snd (generateContentWithRetry prompt 3 1000 st))) =
           sum_list (slept st) + 3000"
proof -
  have t1: "isTransient e1" and t2: "isTransient e2"
    using first(2) second(2) by (auto simp: isTransient_def)
  have run: "generateContentLoop p prompt 3 d 0 st =
      (Inr (RResponse r), st\<lparr>calls := calls st + 3, slept := slept st @ [d * 2 ^ 0, d * 2 ^ 1]\<rparr>)" for d
  proof -
    let ?s1 = "st\<lparr>calls := calls st + 1, slept := slept st @ [d * 2 ^ 0]\<rparr>"
    let ?s2 = "?s1\<lparr>calls := calls ?s1 + 1, slept := slept ?s1 @ [d * 2 ^ (0 + 1)]\<rparr>"
    have a: "generateContentLoop p prompt 3 d 0 st = generateContentLoop p prompt 3 d (0 + 1) ?s1"
      by (rule loop_transient_step) (use first(1) t1 in simp_all)
    have b: "generateContentLoop p prompt 3 d (0 + 1) ?s1 = generateContentLoop p prompt 3 d (0 + 1 + 1) ?s2"
      by (rule loop_transient_step) (use second(1) t2 in simp_all)
    have c: "generateContentLoop p prompt 3 d (0 + 1 + 1) ?s2 = (Inr (RResponse r), ?s2\<lparr>calls := calls ?s2 + 1\<rparr>)"
      by (rule loop_returns) (use third in \<open>simp_all add: add.commute\<close>)
    show ?thesis unfolding a b c by simp
  qed
  show ?thesis using ai run[of initialDelay] run[of 1000]
    by (simp add: generateContentWithRetry_def)
qed

theorem retry_bound_witness:
  "generateContentWithRetry ''prompt'' 3 1000 (emptyServer (Some flakyProvider) False) =
     (Inr (RResponse (Some ''{}'')),
      (emptyServer (Some flakyProvider) False)\<lparr>calls := 3, slept := [1000, 2000]\<rparr>)
   \<and> sum_list (slept (snd (generateContentWithRetry ''prompt'' 3 1000
         (emptyServer (Some flakyProvider) False)))) = 3000"
  using retry_bound[of "emptyServer (Some flakyProvider) False" flakyProvider "''prompt''"
      "\<lparr>status = Some 429, message = Some ''Too Many Requests''\<rparr>"
      "\<lparr>status = Some 503, message = Some ''Service Unavailable''\<rparr>" "Some ''{}''" 1000]
  by (simp add: emptyServer_def flakyProvider_def)

subsection \<open>Shape of the persisted analysis\<close>

text \<open>
  Claim C4, as stated, fails: a POST body that brings its own \<open>aiAnalysis\<close>, here the
  string \<open>junk\<close>, is accepted with 201 and stored with that value, which has none of
  the four AnalysisResult fields.
\<close>

theorem persisted_analysis_shape_counterexample:
  "postFeedback parseStub decimal ''id-1'' 1000
     [(''rating'', JNum 5), (''reviewText'', JStr ''ok''), (''aiAnalysis'', JStr ''junk'')]
     (emptyServer None False) =
   (\<lparr>statusCode = 201, json = JObj (newSubmission ''id-1'' (JNum 5) (JStr ''ok'') 1000 (JStr ''junk''))\<rparr>,
    (emptyServer None False)
      \<lparr>feedbackMemory := [newSubmission ''id-1'' (JNum 5) (JStr ''ok'') 1000 (JStr ''junk'')]\<rparr>)
   \<and> getProp (newSubmission ''id-1'' (JNum 5) (JStr ''ok'') 1000 (JStr ''junk'')) ''aiAnalysis'' = JStr ''junk''
   \<and> \<not> hasAnalysisFields (JStr ''junk'')"
  by (simp add: postFeedback_def getProp_def Let_def emptyServer_def hasAnalysisFields_def newSubmission_def)

text \<open>
  Claim C4, amended. Under the in-memory backend every POST is answered with 201 and
  persists a Submission whose \<open>aiAnalysis\<close> is truthy, hence non-null. That value is the
  request's own \<open>aiAnalysis\<close> when that is truthy (stored unchecked); otherwise it is the
  value parsed from the text of the provider's reply when there is such a reply and it
  parses to a truthy value (stored unchecked); otherwise it is the fallback object. The
  fallback has the four AnalysisResult fields, so they are present whenever neither the
  request nor the provider's reply supplies the value.
\<close>

theorem persisted_analysis_shape:
  assumes in_memory: "\<not> useMongo st"
  shows "\<exists>sub c s.
           postFeedback parse ns uuid now body st =
             (\<lparr>statusCode = 201, json = JObj sub\<rparr>,
              st\<lparr>calls := c, slept := s, feedbackMemory := feedbackMemory st @ [sub]\<rparr>)
         \<and> truthy (getProp sub ''aiAnalysis'')
         \<and> getProp sub ''aiAnalysis'' \<noteq> JNull
         \<and> getProp sub ''aiAnalysis'' =
             (if truthy (getProp body ''aiAnalysis'') then getProp body ''aiAnalysis''
              else
                (case buildPrompt ns (getProp body ''rating'') (getProp body ''reviewText'') of
                   None \<Rightarrow> fallbackAnalysis
                 | Some prompt \<Rightarrow>
                     (case fst (generateContentWithRetry prompt 3 1000 st) of
                        Inr (RResponse (Some t)) \<Rightarrow>
                          (if t \<noteq> [] then
                             (case parse t of
                                Some v \<Rightarrow> if truthy v then v else fallbackAnalysis
                              | None \<Rightarrow> fallbackAnalysis)
                           else fallbackAnalysis)
                      | _ \<Rightarrow> fallbackAnalysis)))
         \<and> hasAnalysisFields fallbackAnalysis"
proof -
  let ?a0 = "getProp body ''aiAnalysis''"
  let ?step = "(if \<not> truthy ?a0
          then enrich parse ns (getProp body ''rating'') (getProp body ''reviewText'') ?a0 st
          else (?a0, st))"
  from analysis_step[of "?a0" parse ns "getProp body ''rating''" "getProp body ''reviewText''" st]
  obtain a c s where
    step: "?step = (a, st\<lparr>calls := c, slept := s\<rparr>)" and t: "truthy a"
    and v: "a = (if truthy ?a0 then ?a0
             else fst (enrich parse ns (getProp body ''rating'') (getProp body ''reviewText'') ?a0 st))"
    by blast
  let ?sub = "newSubmission uuid (getProp body ''rating'') (getProp body ''reviewText'') now a"
  have nn: "a \<noteq> JNull" using t by auto
  have val: "a =
             (if truthy ?a0 then ?a0
              else
                (case buildPrompt ns (getProp body ''rating'') (getProp body ''reviewText'') of
                   None \<Rightarrow> fallbackAnalysis
                 | Some prompt \<Rightarrow>
                     (case fst (generateContentWithRetry prompt 3 1000 st) of
                        Inr (RResponse (Some t)) \<Rightarrow>
                          (if t \<noteq> [] then
                             (case parse t of
                                Some v \<Rightarrow> if truthy v then v else fallbackAnalysis
                              | None \<Rightarrow> fallbackAnalysis)
                           else fallbackAnalysis)
                      | _ \<Rightarrow> fallbackAnalysis)))"
  proof (cases "truthy ?a0")
    case True
    with v show ?thesis by simp
  next
    case False
    with v enrich_value[OF False, of parse ns "getProp body ''rating''" "getProp body ''reviewText''" st]
    show ?thesis by simp
  qed
  show ?thesis
    apply (rule exI[of _ ?sub], rule exI[of _ c], rule exI[of _ s])
    apply (intro conjI)
        apply (rule postFeedback_in_memory[OF in_memory step])
       apply (simp add: getProp_newSubmission t)
      apply (simp add: getProp_newSubmission nn)
     apply (simp only: getProp_newSubmission, rule val)
    apply (rule hasAnalysisFields_fallback)
    done
qed

theorem persisted_analysis_shape_witness:
  "postFeedback parseAnalysis decimal ''id-1'' 1000 sampleBody (emptyServer (Some helpfulProvider) False)
     = (\<lparr>statusCode = 201,
         json = JObj (newSubmission ''id-1'' (JNum 5) (JStr ''Great service!'') 1000 sampleAnalysis)\<rparr>,
        (emptyServer (Some helpfulProvider) False)
          \<lparr>calls := 1,
           feedbackMemory :=
             [newSubmission ''id-1'' (JNum 5) (JStr ''Great service!'') 1000 sampleAnalysis]\<rparr>)
   \<and> hasAnalysisFields sampleAnalysis
   \<and> fst (postFeedback parseAnalysis decimal ''id-2'' 2000 sampleBody (emptyServer None False))
     = \<lparr>statusCode = 201,
        json = JObj (newSubmission ''id-2'' (JNum 5) (JStr ''Great service!'') 2000 fallbackAnalysis)\<rparr>
   \<and> hasAnalysisFields fallbackAnalysis"
proof -
  let ?st = "emptyServer (Some helpfulProvider) False"
  have h: "\<not> useMongo ?st" "\<not> useMongo (emptyServer None False)" by (simp_all add: emptyServer_def)
  have run: "generateContentLoop helpfulProvider q 3 1000 0 ?st
      = (Inr (RResponse (Some ''analysis'')), ?st\<lparr>calls := 1\<rparr>)" for q
    by (subst loop_returns[where r = "Some ''analysis''"])
       (simp_all add: helpfulProvider_def emptyServer_def)
  have ev: "postFeedback parseAnalysis decimal ''id-1'' 1000 sampleBody ?st
     = (\<lparr>statusCode = 201,
         json = JObj (newSubmission ''id-1'' (JNum 5) (JStr ''Great service!'') 1000 sampleAnalysis)\<rparr>,
        ?st\<lparr>calls := 1,
            feedbackMemory :=
              [newSubmission ''id-1'' (JNum 5) (JStr ''Great service!'') 1000 sampleAnalysis]\<rparr>)"
    using run
    by (simp add: postFeedback_def enrich_def buildPrompt_def generateContentWithRetry_def Let_def
        sampleBody_def getProp_def parseAnalysis_def sampleAnalysis_def emptyServer_def)
  have ev2: "fst (postFeedback parseAnalysis decimal ''id-2'' 2000 sampleBody (emptyServer None False))
     = \<lparr>statusCode = 201,
        json = JObj (newSubmission ''id-2'' (JNum 5) (JStr ''Great service!'') 2000 fallbackAnalysis)\<rparr>"
    by (subst postFeedback_disabled) (simp_all add: emptyServer_def sampleBody_def getProp_def)
  have f: "hasAnalysisFields sampleAnalysis" by (simp add: hasAnalysisFields_def sampleAnalysis_def)
  from persisted_analysis_shape[where parse=parseAnalysis and ns=decimal and uuid="''id-1''"
      and now=1000 and body=sampleBody, OF h(1)]
    persisted_analysis_shape[where parse=parseAnalysis and ns=decimal and uuid="''id-2''"
      and now=2000 and body=sampleBody, OF h(2)] ev ev2 f
  show ?thesis by blast
qed

subsection \<open>Presence of rating and review text\<close>

text \<open>
  Claim C5, as stated, fails: under the in-memory backend a POST with an empty body is
  answered with 201 and a Submission is stored, with \<open>rating\<close> and \<open>reviewText\<close>
  undefined.
\<close>

theorem submit_without_presence_check_counterexample:
  "postFeedback parseStub decimal ''id-1'' 1000 [] (emptyServer None False) =
     (\<lparr>statusCode = 201,
       json = JObj (newSubmission ''id-1'' JUndefined JUndefined 1000 fallbackAnalysis)\<rparr>,
      (emptyServer None False)
        \<lparr>feedbackMemory := [newSubmission ''id-1'' JUndefined JUndefined 1000 fallbackAnalysis]\<rparr>)"
  by (subst postFeedback_disabled) (simp_all add: emptyServer_def getProp_def)

text \<open>
  Claim C5, amended. Under the in-memory backend the POST operation does not check that
  \<open>rating\<close> and \<open>reviewText\<close> are present: every request body, also one in which they
  are absent, is answered with 201 and a Submission is created and stored whose
  \<open>rating\<close> and \<open>reviewText\<close> are the body's values, \<open>undefined\<close> when absent.
\<close>

theorem submit_without_presence_check:
  assumes in_memory: "\<not> useMongo st"
  shows "\<exists>sub c s.
           postFeedback parse ns uuid now body st =
             (\<lparr>statusCode = 201, json = JObj sub\<rparr>,
              st\<lparr>calls := c, slept := s, feedbackMemory := feedbackMemory st @ [sub]\<rparr>)
         \<and> getProp sub ''rating'' = getProp body ''rating''
         \<and> getProp sub ''reviewText'' = getProp body ''reviewText''
         \<and> (map_of body ''rating'' = None \<longrightarrow> getProp sub ''rating'' = JUndefined)
         \<and> (map_of body ''reviewText'' = None \<longrightarrow> getProp sub ''reviewText'' = JUndefined)"
proof -
  let ?a0 = "getProp body ''aiAnalysis''"
  let ?step = "(if \<not> truthy ?a0
          then enrich parse ns (getProp body ''rating'') (getProp body ''reviewText'') ?a0 st
          else (?a0, st))"
  from analysis_step[of "?a0" parse ns "getProp body ''rating''" "getProp body ''reviewText''" st]
  obtain a c s where step: "?step = (a, st\<lparr>calls := c, slept := s\<rparr>)" by blast
  let ?sub = "newSubmission uuid (getProp body ''rating'') (getProp body ''reviewText'') now a"
  show ?thesis
    apply (rule exI[of _ ?sub], rule exI[of _ c], rule exI[of _ s])
    apply (intro conjI impI)
        apply (rule postFeedback_in_memory[OF in_memory step])
       apply (simp_all add: getProp_newSubmission)
     apply (simp_all add: getProp_def)
    done
qed

theorem submit_without_presence_check_witness:
  "postFeedback parseStub decimal ''id-1'' 1000 [] (emptyServer None False) =
     (\<lparr>statusCode = 201,
       json = JObj [(''id'', JStr ''id-1''), (''rating'', JUndefined), (''reviewText'', JUndefined),
                    (''timestamp'', JNum 1000), (''aiAnalysis'', fallbackAnalysis),
                    (''helpfulResponse'', JNull)]\<rparr>,
      (emptyServer None False)
        \<lparr>feedbackMemory :=
           [[(''id'', JStr ''id-1''), (''rating'', JUndefined), (''reviewText'', JUndefined),
             (''timestamp'', JNum 1000), (''aiAnalysis'', fallbackAnalysis),
             (''helpfulResponse'', JNull)]]\<rparr>)"
proof -
  have h: "\<not> useMongo (emptyServer None False)" by (simp add: emptyServer_def)
  have ev: "postFeedback parseStub decimal ''id-1'' 1000 [] (emptyServer None False) =
     (\<lparr>statusCode = 201,
       json = JObj (newSubmission ''id-1'' JUndefined JUndefined 1000 fallbackAnalysis)\<rparr>,
      (emptyServer None False)
        \<lparr>feedbackMemory := [newSubmission ''id-1'' JUndefined JUndefined 1000 fallbackAnalysis]\<rparr>)"
    by (subst postFeedback_disabled) (simp_all add: emptyServer_def getProp_def)
  from submit_without_presence_check[where parse=parseStub and ns=decimal and uuid="''id-1''"
      and now=1000 and body="[]", OF h] ev
  show ?thesis by (simp add: newSubmission_def)
qed

subsection \<open>Patching an unknown id\<close>

text \<open>
  Claim C6. A PATCH for an id that no stored record has should answer with a
  404-equivalent and leave the store unchanged. Under the durable backend the handler
  passes the null result of the update on: the answer is 200 with body \<open>null\<close>. (The
  store is unchanged; the in-memory branch answers 404, see
  \<open>patch_unknown_in_memory\<close>.)
\<close>

theorem patch_unknown_id_durable:
  "patchFeedback ''nonexistent'' [(''helpfulResponse'', JBool True)]
     ((emptyServer None True)\<lparr>collection := [sampleRecord]\<rparr>) =
   (\<lparr>statusCode = 200, json = JNull\<rparr>, (emptyServer None True)\<lparr>collection := [sampleRecord]\<rparr>)"
  by (simp add: patchFeedback_def mongoFindOneAndUpdate_def emptyServer_def sampleRecord_def
      getProp_newSubmission Let_def)

subsection \<open>Listing order\<close>

text \<open>
  Claim C7. Under either backend the listing answers 200 with the stored records in
  descending order of timestamp (a rearrangement of the stored records in which no record
  is older than a later one); in particular, three records stored in the order
  \<open>T1 < T2 < T3\<close> are listed as \<open>T3, T2, T1\<close>.
\<close>

theorem listing_order:
  assumes store_ok: "useMongo st \<longrightarrow> dbError st = None"
    and numeric: "\<forall>r\<in>set (storedRecords st). \<exists>t. timestampOf r = Some t"
  shows "(\<exists>ys. fst (getFeedback st) = \<lparr>statusCode = 200, json = JArr (map JObj ys)\<rparr>
            \<and> mset ys = mset (storedRecords st) \<and> sorted_wrt notOlder ys)
       \<and> (\<forall>r1 r2 r3 t1 t2 t3.
            storedRecords st = [r1, r2, r3] \<and> timestampOf r1 = Some t1 \<and> timestampOf r2 = Some t2
              \<and> timestampOf r3 = Some t3 \<and> t1 < t2 \<and> t2 < t3 \<longrightarrow>
            fst (getFeedback st) = \<lparr>statusCode = 200, json = JArr [JObj r3, JObj r2, JObj r1]\<rparr>)"
proof (intro conjI allI impI)
  show "\<exists>ys. fst (getFeedback st) = \<lparr>statusCode = 200, json = JArr (map JObj ys)\<rparr>
            \<and> mset ys = mset (storedRecords st) \<and> sorted_wrt notOlder ys"
    using getFeedback_listing[OF store_ok] mset_sortDesc sorted_sortDesc[OF numeric]
    by blast
next
  fix r1 r2 r3 t1 t2 t3
  assume a: "storedRecords st = [r1, r2, r3] \<and> timestampOf r1 = Some t1 \<and> timestampOf r2 = Some t2
              \<and> timestampOf r3 = Some t3 \<and> t1 < t2 \<and> t2 < t3"
  then have "sortDesc (storedRecords st) = [r3, r2, r1]"
    using sortDesc_three[of r1 t1 r2 t2 r3 t3] by simp
  then show "fst (getFeedback st) = \<lparr>statusCode = 200, json = JArr [JObj r3, JObj r2, JObj r1]\<rparr>"
    using getFeedback_listing[OF store_ok] by simp
qed

theorem listing_order_witness:
  "fst (getFeedback (afterThreePosts False)) =
     \<lparr>statusCode = 200,
      json = JArr [JObj (newSubmission ''id-3'' (JNum 5) (JStr ''Great service!'') 3000 fallbackAnalysis),
                   JObj (newSubmission ''id-2'' (JNum 5) (JStr ''Great service!'') 2000 fallbackAnalysis),
                   JObj (newSubmission ''id-1'' (JNum 5) (JStr ''Great service!'') 1000 fallbackAnalysis)]\<rparr>
   \<and> fst (getFeedback (afterThreePosts True)) =
     \<lparr>statusCode = 200,
      json = JArr [JObj (newSubmission ''id-3'' (JNum 5) (JStr ''Great service!'') 3000 fallbackAnalysis),
                   JObj (newSubmission ''id-2'' (JNum 5) (JStr ''Great service!'') 2000 fallbackAnalysis),
                   JObj (newSubmission ''id-1'' (JNum 5) (JStr ''Great service!'') 1000 fallbackAnalysis)]\<rparr>"
proof -
  let ?r1 = "newSubmission ''id-1'' (JNum 5) (JStr ''Great service!'') 1000 fallbackAnalysis"
  let ?r2 = "newSubmission ''id-2'' (JNum 5) (JStr ''Great service!'') 2000 fallbackAnalysis"
  let ?r3 = "newSubmission ''id-3'' (JNum 5) (JStr ''Great service!'') 3000 fallbackAnalysis"
  have body: "\<not> truthy (getProp sampleBody ''aiAnalysis'')"
      "getProp sampleBody ''rating'' = JNum 5"
      "getProp sampleBody ''reviewText'' = JStr ''Great service!''"
    by (simp_all add: sampleBody_def getProp_def)
  have p1: "snd (postFeedback parseStub decimal ''id-1'' 1000 sampleBody (emptyServer None mongo)) =
      (if mongo then (emptyServer None True)\<lparr>collection := [?r1]\<rparr>
       else (emptyServer None False)\<lparr>feedbackMemory := [?r1]\<rparr>)" for mongo
    by (subst postFeedback_disabled) (simp_all add: body emptyServer_def Feedback_def plainModel_def)
  have p2: "snd (postFeedback parseStub decimal ''id-2'' 2000 sampleBody
        (if mongo then (emptyServer None True)\<lparr>collection := [?r1]\<rparr>
         else (emptyServer None False)\<lparr>feedbackMemory := [?r1]\<rparr>)) =
      (if mongo then (emptyServer None True)\<lparr>collection := [?r1, ?r2]\<rparr>
       else (emptyServer None False)\<lparr>feedbackMemory := [?r1, ?r2]\<rparr>)" for mongo
    by (subst postFeedback_disabled) (simp_all add: body emptyServer_def Feedback_def plainModel_def)
  have p3: "snd (postFeedback parseStub decimal ''id-3'' 3000 sampleBody
        (if mongo then (emptyServer None True)\<lparr>collection := [?r1, ?r2]\<rparr>
         else (emptyServer None False)\<lparr>feedbackMemory := [?r1, ?r2]\<rparr>)) =
      (if mongo then (emptyServer None True)\<lparr>collection := [?r1, ?r2, ?r3]\<rparr>
       else (emptyServer None False)\<lparr>feedbackMemory := [?r1, ?r2, ?r3]\<rparr>)" for mongo
    by (subst postFeedback_disabled) (simp_all add: body emptyServer_def Feedback_def plainModel_def)
  have st: "afterThreePosts mongo =
      (if mongo then (emptyServer None True)\<lparr>collection := [?r1, ?r2, ?r3]\<rparr>
       else (emptyServer None False)\<lparr>feedbackMemory := [?r1, ?r2, ?r3]\<rparr>)" for mongo
    unfolding afterThreePosts_def p1 p2 p3 ..
  have ok: "useMongo (afterThreePosts mongo) \<longrightarrow> dbError (afterThreePosts mongo) = None" for mongo
    by (simp add: st emptyServer_def)
  have recs: "storedRecords (afterThreePosts mongo) = [?r1, ?r2, ?r3]" for mongo
    by (simp add: st storedRecords_def emptyServer_def)
  have ts: "timestampOf ?r1 = Some 1000" "timestampOf ?r2 = Some 2000" "timestampOf ?r3 = Some 3000"
    by (simp_all add: timestampOf_def getProp_newSubmission)
  have num: "\<forall>r\<in>set (storedRecords (afterThreePosts mongo)). \<exists>t. timestampOf r = Some t" for mongo
    using ts by (simp add: recs)
  from listing_order[OF ok num, of False] listing_order[OF ok num, of True] recs ts
  show ?thesis by simp
qed

subsection \<open>Patch semantics\<close>

text \<open>
  Claim C8. For an id that a stored record has, under either backend, a PATCH with body
  \<open>{helpfulResponse: true}\<close> answers 200 with a record that agrees with the stored one
  on every field except \<open>helpfulResponse\<close>, which is \<open>true\<close>. For any body the merge
  is shallow: a field the body supplies takes the body's value, every other field keeps
  the stored value, and the store differs only in that one record.
\<close>

theorem patch_semantics:
  assumes store_ok: "useMongo st \<longrightarrow> dbError st = None"
    and found: "List.find (\<lambda>f. getProp f ''id'' = JStr ident) (storedRecords st) = Some old"
  shows "(\<exists>new. fst (patchFeedback ident [(''helpfulResponse'', JBool True)] st)
                   = \<lparr>statusCode = 200, json = JObj new\<rparr>
             \<and> (\<forall>k. getProp new k = (if k = ''helpfulResponse'' then JBool True else getProp old k)))
       \<and> (\<exists>new i. fst (patchFeedback ident body st) = \<lparr>statusCode = 200, json = JObj new\<rparr>
             \<and> (\<forall>k. getProp new k = (case map_of (rev body) k of Some v \<Rightarrow> v | None \<Rightarrow> getProp old k))
             \<and> i < length (storedRecords st) \<and> storedRecords st ! i = old
             \<and> storedRecords (snd (patchFeedback ident body st)) = (storedRecords st)[i := new])"
proof (intro conjI)
  from patch_known[OF store_ok found, of "[(''helpfulResponse'', JBool True)]"]
  show "\<exists>new. fst (patchFeedback ident [(''helpfulResponse'', JBool True)] st)
                   = \<lparr>statusCode = 200, json = JObj new\<rparr>
             \<and> (\<forall>k. getProp new k = (if k = ''helpfulResponse'' then JBool True else getProp old k))"
    by (auto simp: getProp_spread)
next
  from patch_known[OF store_ok found, of body] obtain i where
    i: "i < length (storedRecords st)" "storedRecords st ! i = old"
       "patchFeedback ident body st =
             (\<lparr>statusCode = 200, json = JObj (spread old body)\<rparr>,
              if useMongo st then st\<lparr>collection := (collection st)[i := spread old body]\<rparr>
              else st\<lparr>feedbackMemory := (feedbackMemory st)[i := spread old body]\<rparr>)" by blast
  then show "\<exists>new i. fst (patchFeedback ident body st) = \<lparr>statusCode = 200, json = JObj new\<rparr>
             \<and> (\<forall>k. getProp new k = (case map_of (rev body) k of Some v \<Rightarrow> v | None \<Rightarrow> getProp old k))
             \<and> i < length (storedRecords st) \<and> storedRecords st ! i = old
             \<and> storedRecords (snd (patchFeedback ident body st)) = (storedRecords st)[i := new]"
    by (intro exI[of _ "spread old body"] exI[of _ i]) (simp add: getProp_spread storedRecords_def)
qed

theorem patch_semantics_witness:
  "fst (patchFeedback ''id-1'' [(''helpfulResponse'', JBool True)]
          ((emptyServer None False)\<lparr>feedbackMemory := [sampleRecord]\<rparr>)) =
     \<lparr>statusCode = 200,
      json = JObj [(''id'', JStr ''id-1''), (''rating'', JNum 5),
                   (''reviewText'', JStr ''Great service!''), (''timestamp'', JNum 1000),
                   (''aiAnalysis'', fallbackAnalysis), (''helpfulResponse'', JBool True)]\<rparr>"
proof -
  let ?st = "(emptyServer None False)\<lparr>feedbackMemory := [sampleRecord]\<rparr>"
  have h1: "useMongo ?st \<longrightarrow> dbError ?st = None" by (simp add: emptyServer_def)
  have h2: "List.find (\<lambda>f. getProp f ''id'' = JStr ''id-1'') (storedRecords ?st) = Some sampleRecord"
    by (simp add: storedRecords_def emptyServer_def sampleRecord_def getProp_newSubmission)
  have ev: "fst (patchFeedback ''id-1'' [(''helpfulResponse'', JBool True)] ?st) =
     \<lparr>statusCode = 200,
      json = JObj [(''id'', JStr ''id-1''), (''rating'', JNum 5),
                   (''reviewText'', JStr ''Great service!''), (''timestamp'', JNum 1000),
                   (''aiAnalysis'', fallbackAnalysis), (''helpfulResponse'', JBool True)]\<rparr>"
    by (simp add: patchFeedback_def emptyServer_def sampleRecord_def getProp_def Let_def
        spread_def newSubmission_def)
  from patch_semantics[OF h1 h2, of "[]"] ev
  show ?thesis by blast
qed

subsection \<open>No credential\<close>

text \<open>
  Claim C9. Without an AI credential the retry executor returns \<open>null\<close> at once, on
  every call: the state is unchanged, so no provider invocation and no backoff delay has
  happened. The enrichment step, and with it the POST, then falls through to the fixed
  fallback AnalysisResult: the Submission that the handler stores in memory, or hands to
  the \<open>Feedback\<close> model under the durable backend, carries the fallback.
\<close>

theorem no_credential_short_circuit:
  assumes disabled: "genAI st = None"
  shows "generateContentWithRetry prompt retries initialDelay st = (Inr RNull, st)
       \<and> (\<not> truthy aiAnalysis0 \<longrightarrow>
            enrich parse ns rating reviewText aiAnalysis0 st = (fallbackAnalysis, st))
       \<and> (\<not> truthy (getProp body ''aiAnalysis'') \<longrightarrow>
            (\<not> useMongo st \<longrightarrow>
               postFeedback parse ns uuid now body st =
                 (\<lparr>statusCode = 201,
                   json = JObj (newSubmission uuid (getProp body ''rating'')
                                  (getProp body ''reviewText'') now fallbackAnalysis)\<rparr>,
                  st\<lparr>feedbackMemory := feedbackMemory st @
                       [newSubmission uuid (getProp body ''rating'') (getProp body ''reviewText'')
                          now fallbackAnalysis]\<rparr>))
            \<and> (useMongo st \<longrightarrow>
               postFeedback parse ns uuid now body st =
                 (case Feedback st
                         (newSubmission uuid (getProp body ''rating'') (getProp body ''reviewText'')
                            now fallbackAnalysis) of
                    Inl m \<Rightarrow> (\<lparr>statusCode = 400, json = errorBody m\<rparr>, st)
                  | Inr doc \<Rightarrow>
                      (case dbError st of
                         Some m \<Rightarrow> (\<lparr>statusCode = 400, json = errorBody m\<rparr>, st)
                       | None \<Rightarrow>
                           (\<lparr>statusCode = 201, json = JObj doc\<rparr>,
                            st\<lparr>collection := collection st @ [doc]\<rparr>))))
            \<and> calls (snd (postFeedback parse ns uuid now body st)) = calls st
            \<and> slept (snd (postFeedback parse ns uuid now body st)) = slept st)"
proof (intro conjI impI)
  show "generateContentWithRetry prompt retries initialDelay st = (Inr RNull, st)"
    using disabled by (simp add: generateContentWithRetry_def)
next
  assume "\<not> truthy aiAnalysis0"
  with disabled show "enrich parse ns rating reviewText aiAnalysis0 st = (fallbackAnalysis, st)"
    by (rule enrich_disabled)
next
  assume n: "\<not> truthy (getProp body ''aiAnalysis'')"
  note post = postFeedback_disabled[OF disabled n, of parse ns uuid now]
  show "postFeedback parse ns uuid now body st =
                 (\<lparr>statusCode = 201,
                   json = JObj (newSubmission uuid (getProp body ''rating'')
                                  (getProp body ''reviewText'') now fallbackAnalysis)\<rparr>,
                  st\<lparr>feedbackMemory := feedbackMemory st @
                       [newSubmission uuid (getProp body ''rating'') (getProp body ''reviewText'')
                          now fallbackAnalysis]\<rparr>)"
    if "\<not> useMongo st"
    using post that by simp
  show "postFeedback parse ns uuid now body st =
                 (case Feedback st
                         (newSubmission uuid (getProp body ''rating'') (getProp body ''reviewText'')
                            now fallbackAnalysis) of
                    Inl m \<Rightarrow> (\<lparr>statusCode = 400, json = errorBody m\<rparr>, st)
                  | Inr doc \<Rightarrow>
                      (case dbError st of
                         Some m \<Rightarrow> (\<lparr>statusCode = 400, json = errorBody m\<rparr>, st)
                       | None \<Rightarrow>
                           (\<lparr>statusCode = 201, json = JObj doc\<rparr>,
                            st\<lparr>collection := collection st @ [doc]\<rparr>)))"
    if "useMongo st"
    using post that by simp
  show "calls (snd (postFeedback parse ns uuid now body st)) = calls st"
    using post by (simp split: sum.splits option.splits)
  show "slept (snd (postFeedback parse ns uuid now body st)) = slept st"
    using post by (simp split: sum.splits option.splits)
qed

theorem no_credential_short_circuit_witness:
  "generateContentWithRetry ''prompt'' 3 1000 (emptyServer None False)
       = (Inr RNull, emptyServer None False)
   \<and> calls (snd (generateContentWithRetry ''prompt'' 3 1000 (emptyServer None False))) = 0
   \<and> slept (snd (generateContentWithRetry ''prompt'' 3 1000 (emptyServer None False))) = []
   \<and> enrich parseStub decimal (JNum 5) (JStr ''Great service!'') JUndefined (emptyServer None False)
       = (fallbackAnalysis, emptyServer None False)
   \<and> fst (postFeedback parseStub decimal ''id-1'' 1000 sampleBody (emptyServer None False))
       = \<lparr>statusCode = 201, json = JObj sampleRecord\<rparr>"
proof -
  have h: "genAI (emptyServer None False) = None" by (simp add: emptyServer_def)
  from no_credential_short_circuit[where prompt="''prompt''" and retries=3 and initialDelay=1000
      and ?aiAnalysis0.0=JUndefined and parse=parseStub and ns=decimal and rating="JNum 5"
      and reviewText="JStr ''Great service!''" and body=sampleBody and uuid="''id-1''" and now=1000,
      OF h]
  show ?thesis
    by (simp add: emptyServer_def sampleBody_def sampleRecord_def getProp_def)
qed

subsection \<open>Client-supplied analysis\<close>

text \<open>
  Claim C10, as stated, fails under the durable backend: the client's \<open>aiAnalysis\<close>,
  here the string \<open>junk\<close>, goes through the \<open>Feedback\<close> model, which keeps no
  \<open>aiAnalysis\<close> that is not a nested object, so the answer is 201 and the stored
  document has no \<open>aiAnalysis\<close>: the value is not persisted as it came.
\<close>

theorem supplied_analysis_counterexample:
  "getProp [(''rating'', JNum 5), (''reviewText'', JStr ''ok''), (''aiAnalysis'', JStr ''junk'')]
      ''aiAnalysis'' = JStr ''junk''
   \<and> statusCode (fst (postFeedback parseStub decimal ''id-1'' 1000
         [(''rating'', JNum 5), (''reviewText'', JStr ''ok''), (''aiAnalysis'', JStr ''junk'')]
         ((emptyServer None True)\<lparr>mongooseModel := castingModel\<rparr>))) = 201
   \<and> length (collection (snd (postFeedback parseStub decimal ''id-1'' 1000
         [(''rating'', JNum 5), (''reviewText'', JStr ''ok''), (''aiAnalysis'', JStr ''junk'')]
         ((emptyServer None True)\<lparr>mongooseModel := castingModel\<rparr>)))) = 1
   \<and> getProp (last (collection (snd (postFeedback parseStub decimal ''id-1'' 1000
         [(''rating'', JNum 5), (''reviewText'', JStr ''ok''), (''aiAnalysis'', JStr ''junk'')]
         ((emptyServer None True)\<lparr>mongooseModel := castingModel\<rparr>))))) ''aiAnalysis'' = JUndefined"
  by (simp add: postFeedback_def mongoSave_def Feedback_def castingModel_def getProp_def Let_def
      emptyServer_def newSubmission_def)

text \<open>
  Claim C10, amended. A POST whose body has a truthy \<open>aiAnalysis\<close> skips the enrichment
  entirely: the provider is not called, nothing is waited and the fallback is not
  substituted, whatever the provider and the parser are. The Submission the handler
  builds carries the body's \<open>aiAnalysis\<close> as it came, whatever its shape. Under the
  in-memory backend that Submission is persisted verbatim and returned with 201. Under the
  durable backend it is handed to the \<open>Feedback\<close> model, and what is persisted and
  returned is the document the model makes of it (or the answer is 400 when the model or
  the database rejects it).
\<close>

theorem supplied_analysis_skips_enrichment:
  assumes supplied: "truthy (getProp body ''aiAnalysis'')"
  shows "\<exists>sub.
           getProp sub ''aiAnalysis'' = getProp body ''aiAnalysis''
         \<and> getProp sub ''rating'' = getProp body ''rating''
         \<and> getProp sub ''reviewText'' = getProp body ''reviewText''
         \<and> getProp sub ''id'' = JStr uuid
         \<and> getProp sub ''timestamp'' = JNum now
         \<and> getProp sub ''helpfulResponse'' = JNull
         \<and> (\<not> useMongo st \<longrightarrow>
              postFeedback parse ns uuid now body st =
                (\<lparr>statusCode = 201, json = JObj sub\<rparr>,
                 st\<lparr>feedbackMemory := feedbackMemory st @ [sub]\<rparr>))
         \<and> (useMongo st \<longrightarrow>
              postFeedback parse ns uuid now body st =
                (case Feedback st sub of
                   Inl m \<Rightarrow> (\<lparr>statusCode = 400, json = errorBody m\<rparr>, st)
                 | Inr doc \<Rightarrow>
                     (case dbError st of
                        Some m \<Rightarrow> (\<lparr>statusCode = 400, json = errorBody m\<rparr>, st)
                      | None \<Rightarrow>
                          (\<lparr>statusCode = 201, json = JObj doc\<rparr>,
                           st\<lparr>collection := collection st @ [doc]\<rparr>))))
         \<and> calls (snd (postFeedback parse ns uuid now body st)) = calls st
         \<and> slept (snd (postFeedback parse ns uuid now body st)) = slept st"
proof -
  let ?sub = "newSubmission uuid (getProp body ''rating'') (getProp body ''reviewText'') now
                (getProp body ''aiAnalysis'')"
  note post = postFeedback_supplied[OF supplied, of parse ns uuid now st]
  have mem: "\<not> useMongo st \<longrightarrow>
              postFeedback parse ns uuid now body st =
                (\<lparr>statusCode = 201, json = JObj ?sub\<rparr>,
                 st\<lparr>feedbackMemory := feedbackMemory st @ [?sub]\<rparr>)"
    using post by simp
  have dur: "useMongo st \<longrightarrow>
              postFeedback parse ns uuid now body st =
                (case Feedback st ?sub of
                   Inl m \<Rightarrow> (\<lparr>statusCode = 400, json = errorBody m\<rparr>, st)
                 | Inr doc \<Rightarrow>
                     (case dbError st of
                        Some m \<Rightarrow> (\<lparr>statusCode = 400, json = errorBody m\<rparr>, st)
                      | None \<Rightarrow>
                          (\<lparr>statusCode = 201, json = JObj doc\<rparr>,
                           st\<lparr>collection := collection st @ [doc]\<rparr>)))"
    using post by simp
  have c: "calls (snd (postFeedback parse ns uuid now body st)) = calls st"
    using post by (simp split: sum.splits option.splits)
  have s: "slept (snd (postFeedback parse ns uuid now body st)) = slept st"
    using post by (simp split: sum.splits option.splits)
  show ?thesis
    apply (rule exI[of _ ?sub])
    apply (intro conjI)
            apply (simp_all only: getProp_newSubmission)
       apply (rule mem)
      apply (rule dur)
     apply (rule c)
    apply (rule s)
    done
qed

theorem supplied_analysis_skips_enrichment_witness:
  "truthy (getProp [(''rating'', JNum 5), (''reviewText'', JStr ''ok''), (''aiAnalysis'', JStr ''junk'')]
      ''aiAnalysis'')
   \<and> postFeedback parseAnalysis decimal ''id-1'' 1000
       [(''rating'', JNum 5), (''reviewText'', JStr ''ok''), (''aiAnalysis'', JStr ''junk'')]
       (emptyServer (Some helpfulProvider) False) =
     (\<lparr>statusCode = 201,
       json = JObj [(''id'', JStr ''id-1''), (''rating'', JNum 5), (''reviewText'', JStr ''ok''),
                    (''timestamp'', JNum 1000), (''aiAnalysis'', JStr ''junk''),
                    (''helpfulResponse'', JNull)]\<rparr>,
      (emptyServer (Some helpfulProvider) False)
        \<lparr>feedbackMemory :=
           [[(''id'', JStr ''id-1''), (''rating'', JNum 5), (''reviewText'', JStr ''ok''),
             (''timestamp'', JNum 1000), (''aiAnalysis'', JStr ''junk''),
             (''helpfulResponse'', JNull)]]\<rparr>)"
proof -
  let ?body = "[(''rating'', JNum 5), (''reviewText'', JStr ''ok''), (''aiAnalysis'', JStr ''junk'')]"
  let ?st = "emptyServer (Some helpfulProvider) False"
  have h1: "truthy (getProp ?body ''aiAnalysis'')" by (simp add: getProp_def)
  have ev: "postFeedback parseAnalysis decimal ''id-1'' 1000 ?body ?st =
     (\<lparr>statusCode = 201,
       json = JObj (newSubmission ''id-1'' (JNum 5) (JStr ''ok'') 1000 (JStr ''junk''))\<rparr>,
      ?st\<lparr>feedbackMemory := [newSubmission ''id-1'' (JNum 5) (JStr ''ok'') 1000 (JStr ''junk'')]\<rparr>)"
    by (subst postFeedback_supplied) (simp_all add: getProp_def emptyServer_def)
  from supplied_analysis_skips_enrichment[where parse=parseAnalysis and ns=decimal
      and uuid="''id-1''" and now=1000 and st="?st", OF h1] h1 ev
  show ?thesis by (simp add: newSubmission_def)
qed

end
